theory Spec2Isabelle
  imports Complex_Main "HOL-Library.List_Lexorder" "HOL-Library.Char_ord"
begin

section \<open>Python values and errors\<close>

text \<open>
  The program is a Python script. Every exception the modelled code can raise is a
  value of \<open>pyerror\<close>; \<open>Stopped\<close> stands for \<^verbatim>\<open>st.stop()\<close>, which ends the run of the
  script. A function that can raise returns \<open>pyerror + 'a\<close>, with \<open>Inl\<close> the exception.
  \<open>InvalidIndexError\<close> is the exception of pandas of that name. \<open>Unmodelled\<close> is no Python
  exception: it is the answer of \<open>literal_eval\<close> below on a text outside the fragment of
  Python literals that it covers.
\<close>

datatype pyerror =
    AssertionError
  | IndexError
  | KeyError
  | TypeError
  | AttributeError
  | ValueError
  | SyntaxError
  | InvalidIndexError
  | Stopped
  | Unmodelled

text \<open>
  The Python values that the script handles dynamically: the \<^verbatim>\<open>classification\<close> of a
  feature, the names derived from it, and the sample-to-well mapping. \<open>PyNone\<close> also stands
  for the missing value (NaN) of a pandas column. Dictionary keys are strings; a
  dictionary is an association list in insertion order with each key at most once.
\<close>

datatype pyval =
    PyNone
  | PyStr string
  | PyInt int
  | PyList "pyval list"
  | PyDict "(string \<times> pyval) list"

text \<open>Lists and dictionaries are unhashable: a set or a hash table refuses them.\<close>

fun hashable :: "pyval \<Rightarrow> bool" where
  "hashable (PyList _) = False"
| "hashable (PyDict _) = False"
| "hashable _ = True"

text \<open>
  \<open>apply_rows f xs\<close> is a list comprehension or \<^verbatim>\<open>Series.apply\<close> over \<open>xs\<close> with a
  function that can raise: the first exception, in row order, ends it.
\<close>

fun apply_rows :: "('a \<Rightarrow> pyerror + 'b) \<Rightarrow> 'a list \<Rightarrow> pyerror + 'b list" where
  "apply_rows f [] = Inr []"
| "apply_rows f (x # xs) =
     (case f x of
        Inl e \<Rightarrow> Inl e
      | Inr y \<Rightarrow> (case apply_rows f xs of Inl e \<Rightarrow> Inl e | Inr ys \<Rightarrow> Inr (y # ys)))"

text \<open>
  \<^verbatim>\<open>str(i)\<close> for a Python integer: decimal digits, most significant first, with a
  leading minus sign for a negative number.
\<close>

definition digit_char :: "nat \<Rightarrow> char" where
  "digit_char d = ''0123456789'' ! d"

fun str_nat :: "nat \<Rightarrow> string" where
  "str_nat n = (if n < 10 then [digit_char n] else str_nat (n div 10) @ [digit_char (n mod 10)])"

declare str_nat.simps [simp del]

definition str_int :: "int \<Rightarrow> string" where
  "str_int i = (if i < 0 then CHR ''-'' # str_nat (nat (- i)) else str_nat (nat i))"

text \<open>
  A Python \<^verbatim>\<open>dict\<close> with string keys. \<open>dict_set\<close> is \<^verbatim>\<open>d[k] = v\<close>: an existing key keeps
  its place and takes the new value, a new key goes to the end.
\<close>

fun dict_set :: "(string \<times> 'v) list \<Rightarrow> string \<Rightarrow> 'v \<Rightarrow> (string \<times> 'v) list" where
  "dict_set [] k v = [(k, v)]"
| "dict_set ((k', v') # d) k v = (if k' = k then (k, v) # d else (k', v') # dict_set d k v)"

definition dict_get :: "(string \<times> 'v) list \<Rightarrow> string \<Rightarrow> 'v option" where
  "dict_get d k = map_of d k"

definition dict_keys :: "(string \<times> 'v) list \<Rightarrow> string list" where
  "dict_keys d = map fst d"

definition dict_values :: "(string \<times> 'v) list \<Rightarrow> 'v list" where
  "dict_values d = map snd d"

section \<open>Class-list generator\<close>

text \<open>
  \<^verbatim>\<open>itertools.product(list1, list2, range(1, num + 1))\<close> yields the triples in the order
  of three nested loops, the rightmost iterable running fastest.
\<close>

definition itertools_product3 :: "'a list \<Rightarrow> 'b list \<Rightarrow> 'c list \<Rightarrow> ('a \<times> 'b \<times> 'c) list" where
  "itertools_product3 xs ys zs =
     concat (map (\<lambda>a. concat (map (\<lambda>b. map (\<lambda>i. (a, b, i)) zs) ys)) xs)"

text \<open>\<^verbatim>\<open>range(1, num + 1)\<close>: the integers from 1 to \<open>num\<close>, empty when \<open>num < 1\<close>.\<close>

definition range_1_to :: "int \<Rightarrow> int list" where
  "range_1_to num = map (\<lambda>k. int k + 1) [0 ..< nat num]"

text \<open>The f-string \<^verbatim>\<open>f"{a}_{b}_{i}"\<close>.\<close>

definition combination_name :: "string \<times> string \<times> int \<Rightarrow> string" where
  "combination_name t = (case t of (a, b, i) \<Rightarrow> a @ ''_'' @ b @ ''_'' @ str_int i)"

text \<open>
  \<^verbatim>\<open>generate_combinations\<close>. The two \<^verbatim>\<open>isinstance\<close> assertions on the lists hold by
  typing; the third assertion, \<^verbatim>\<open>num > 0\<close>, is the guard below.
\<close>

definition generate_combinations :: "string list \<Rightarrow> string list \<Rightarrow> int \<Rightarrow> pyerror + string list" where
  "generate_combinations list1 list2 num =
     (if \<not> num > 0 then Inl AssertionError
      else Inr (map combination_name (itertools_product3 list1 list2 (range_1_to num))))"

section \<open>Wells and the default sample-to-well scheme\<close>

text \<open>\<^verbatim>\<open>string.ascii_uppercase\<close>.\<close>

definition ascii_uppercase :: string where
  "ascii_uppercase = ''ABCDEFGHIJKLMNOPQRSTUVWXYZ''"

text \<open>
  \<^verbatim>\<open>create_list_of_acceptable_wells\<close>: rows \<^verbatim>\<open>ascii_uppercase[2:14]\<close>, columns
  \<^verbatim>\<open>range(3, 22)\<close>, the row loop outside.
\<close>

definition create_list_of_acceptable_wells :: "string list" where
  "create_list_of_acceptable_wells =
     concat (map (\<lambda>row. map (\<lambda>column. [row] @ str_nat column) [3 ..< 22])
                 (take (14 - 2) (drop 2 ascii_uppercase)))"

text \<open>
  \<^verbatim>\<open>create_default_samples_and_wells\<close>: the assertion on the lengths, then one dictionary
  assignment per pair of \<^verbatim>\<open>zip\<close>.
\<close>

fun assign_pairs :: "(string \<times> 'v) list \<Rightarrow> (string \<times> 'v) list \<Rightarrow> (string \<times> 'v) list" where
  "assign_pairs d [] = d"
| "assign_pairs d ((sample, well) # ps) = assign_pairs (dict_set d sample well) ps"

definition create_default_samples_and_wells ::
  "string list \<Rightarrow> 'v list \<Rightarrow> pyerror + (string \<times> 'v) list" where
  "create_default_samples_and_wells list_of_samples list_of_acceptable_wells =
     (if \<not> length list_of_samples \<le> length list_of_acceptable_wells then Inl AssertionError
      else Inr (assign_pairs [] (zip list_of_samples list_of_acceptable_wells)))"

section \<open>Plate layout\<close>

text \<open>
  The pandas \<^verbatim>\<open>DataFrame\<close> of the plate: row labels, column labels, and the cells row by
  row. A cell holds a string or is missing (NaN).
\<close>

datatype cell = Text string | Missing

record dataframe =
  index :: "string list"
  columns :: "string list"
  data :: "cell list list"

text \<open>The position of the first occurrence of a label.\<close>

fun get_loc :: "string list \<Rightarrow> string \<Rightarrow> nat" where
  "get_loc [] l = 0"
| "get_loc (x # xs) l = (if x = l then 0 else Suc (get_loc xs l))"

text \<open>
  \<^verbatim>\<open>df.at[r, c] = v\<close>. When both labels exist the cell is overwritten. When a label is
  missing, pandas falls back to \<^verbatim>\<open>df.loc[r, c] = v\<close>, which enlarges the frame: a
  missing column label is appended as a new column and a missing row label as a new row,
  their other cells missing (NaN), and then the cell is set.
\<close>

definition add_column :: "dataframe \<Rightarrow> string \<Rightarrow> dataframe" where
  "add_column df c =
     (if c \<in> set (columns df) then df
      else df\<lparr>columns := columns df @ [c], data := map (\<lambda>row. row @ [Missing]) (data df)\<rparr>)"

definition add_row :: "dataframe \<Rightarrow> string \<Rightarrow> dataframe" where
  "add_row df r =
     (if r \<in> set (index df) then df
      else df\<lparr>index := index df @ [r],
              data := data df @ [replicate (length (columns df)) Missing]\<rparr>)"

definition set_cell :: "dataframe \<Rightarrow> string \<Rightarrow> string \<Rightarrow> cell \<Rightarrow> dataframe" where
  "set_cell df r c v =
     (let i = get_loc (index df) r; j = get_loc (columns df) c
      in df\<lparr>data := (data df)[i := (data df ! i)[j := v]]\<rparr>)"

definition at_set :: "dataframe \<Rightarrow> string \<Rightarrow> string \<Rightarrow> cell \<Rightarrow> dataframe" where
  "at_set df r c v = set_cell (add_row (add_column df c) r) r c v"

text \<open>
  \<^verbatim>\<open>[i for i in string.ascii_uppercase[:16]]\<close> and \<^verbatim>\<open>[str(i) for i in range(1,25)]\<close>.
\<close>

definition rows_A_P :: "string list" where
  "rows_A_P = map (\<lambda>i. [i]) (take 16 ascii_uppercase)"

definition columns_1_24 :: "string list" where
  "columns_1_24 = map str_nat [1 ..< 25]"

text \<open>\<^verbatim>\<open>pandas.DataFrame('', columns=columns_1_24, index=rows_A_P)\<close>.\<close>

definition empty_wp384 :: dataframe where
  "empty_wp384 =
     \<lparr>index = rows_A_P, columns = columns_1_24,
      data = replicate (length rows_A_P) (replicate (length columns_1_24) (Text ''''))\<rparr>"

text \<open>
  One turn of the loop of \<^verbatim>\<open>sample_placement_384wp\<close>, for the key \<open>i\<close> and its value
  \<open>location\<close>. \<^verbatim>\<open>location[0]\<close> raises IndexError on an empty string or list, TypeError on
  \<^verbatim>\<open>None\<close> and on an integer, and KeyError on a dictionary (whose keys are strings); a
  list as column label \<^verbatim>\<open>location[1:]\<close> is refused by pandas with InvalidIndexError.
\<close>

fun place_sample :: "dataframe \<Rightarrow> string \<Rightarrow> pyval \<Rightarrow> pyerror + dataframe" where
  "place_sample df i (PyStr []) = Inl IndexError"
| "place_sample df i (PyStr (c # cs)) = Inr (at_set df [c] cs (Text i))"
| "place_sample df i PyNone = Inl TypeError"
| "place_sample df i (PyInt _) = Inl TypeError"
| "place_sample df i (PyList []) = Inl IndexError"
| "place_sample df i (PyList (_ # _)) = Inl InvalidIndexError"
| "place_sample df i (PyDict _) = Inl KeyError"

fun place_samples :: "dataframe \<Rightarrow> (string \<times> pyval) list \<Rightarrow> pyerror + dataframe" where
  "place_samples df [] = Inr df"
| "place_samples df ((i, location) # rest) =
     (case place_sample df i location of
        Inl e \<Rightarrow> Inl e
      | Inr df' \<Rightarrow> place_samples df' rest)"

definition sample_placement_384wp :: "(string \<times> pyval) list \<Rightarrow> pyerror + dataframe" where
  "sample_placement_384wp samples_and_wells = place_samples empty_wp384 samples_and_wells"

text \<open>
  Reading a cell by its labels (\<^verbatim>\<open>df.at[r, c]\<close> as an expression): \<open>None\<close> when a label
  does not exist, where pandas raises KeyError. The script does not read the plate; the
  properties below are stated with it.
\<close>

definition cell_at :: "dataframe \<Rightarrow> string \<Rightarrow> string \<Rightarrow> cell option" where
  "cell_at df r c =
     (if r \<in> set (index df) \<and> c \<in> set (columns df)
      then Some (data df ! get_loc (index df) r ! get_loc (columns df) c)
      else None)"

text \<open>
  A frame is well formed when its labels are unique and its cells form a grid of one
  row per row label and one cell per column label.
\<close>

definition wf_frame :: "dataframe \<Rightarrow> bool" where
  "wf_frame df \<longleftrightarrow>
     distinct (index df) \<and> distinct (columns df)
     \<and> length (data df) = length (index df)
     \<and> (\<forall>row \<in> set (data df). length row = length (columns df))"

section \<open>GeoJSON features and the messages of the script\<close>

text \<open>
  A geometry as shapely reads it from GeoJSON. Coordinates are Python floats; they are
  real numbers here, and the script itself computes nothing with them.
\<close>

type_synonym coords = "(real \<times> real) list"

datatype geometry =
    Point real real
  | LineString coords
  | Polygon coords "coords list"
  | MultiPoint coords
  | MultiLineString "coords list"
  | MultiPolygon "(coords \<times> coords list) list"
  | GeometryCollection

fun geom_type :: "geometry \<Rightarrow> string" where
  "geom_type (Point _ _) = ''Point''"
| "geom_type (LineString _) = ''LineString''"
| "geom_type (Polygon _ _) = ''Polygon''"
| "geom_type (MultiPoint _) = ''MultiPoint''"
| "geom_type (MultiLineString _) = ''MultiLineString''"
| "geom_type (MultiPolygon _) = ''MultiPolygon''"
| "geom_type GeometryCollection = ''GeometryCollection''"

text \<open>\<^verbatim>\<open>isinstance(geom, shapely.geometry.Point)\<close>.\<close>

fun is_point :: "geometry \<Rightarrow> bool" where
  "is_point (Point _ _) = True"
| "is_point _ = False"

text \<open>
  One row of the frame that \<^verbatim>\<open>geopandas.read_file\<close> returns: the geometry, the
  \<^verbatim>\<open>name\<close> (\<open>None\<close> when the feature has none) and the \<^verbatim>\<open>classification\<close>, which is
  \<open>PyNone\<close> when missing, a string holding a literal, or a dictionary. Every feature is
  taken to have a geometry. A cleaned row has the derived \<^verbatim>\<open>classification_name\<close> as well.
\<close>

record feature =
  geometry :: geometry
  name :: "string option"
  classification :: pyval

record shape = feature +
  classification_name :: pyval

text \<open>
  A frame: whether it has a \<^verbatim>\<open>name\<close> column and a \<^verbatim>\<open>classification\<close> column at all (the
  frame read from a file has a column only when some feature of the file has the
  property), and its rows. Selecting a column that the frame does not have raises
  KeyError.
\<close>

record 'row geodataframe =
  name_column :: bool
  classification_column :: bool
  rows :: "'row list"

text \<open>
  What the script writes to the log and to the page. The geometry histogram, the
  preview image and the statistics of the collection carry no content here.
\<close>

datatype np_float = Finite real | NaN | PosInf

datatype message =
    GeojsonLoaded nat
  | NoNameColumn
  | GeometriesInDataFrame
  | CalibNameNotPresent string
  | CalibNamesPassed "string list"
  | CalibPointsFound "string option list"
  | PercentWithinTriangle np_float
  | LessThan25Percent
  | PolygonsWarped
  | PointsRemoved
  | NaNClassifications nat
  | MultiPolygonsPresent
  | MultiPolygonTable "(string option \<times> pyval) list"
  | MultiPolygonsIgnored
  | GeometryNotSupported string
  | QCComplete
  | CheckingWells
  | WellNotAcceptable pyval
  | TenWarnings
  | CheckingNames
  | NameNotInSamplesAndWells pyval
  | SamplesAndWellsQCDone
  | TheCollectionImage
  | TheCollectionStats
  | CsvReadError
  | RunningCheckIds
  | MetadataNamesStripped
  | MetadataShape nat
  | FirstShapeNames
  | FirstMetadataNames
  | AllShapeNamesFound
  | NotFoundInMetadata "pyval set"
  | OverlappingNames "pyval set"

datatype sink =
    LoggerDebug | LoggerInfo | LoggerWarning | LoggerError
  | StWrite | StTable | StImage | StSuccess

type_synonym entry = "sink \<times> message"

text \<open>
  A run of a function of the script: what it has written, in order, and how it ended,
  with an exception or with a value.
\<close>

type_synonym 'a run = "entry list \<times> (pyerror + 'a)"

definition emit :: "entry list \<Rightarrow> unit run" where
  "emit outs = (outs, Inr ())"

definition raise :: "pyerror \<Rightarrow> 'a run" where
  "raise e = ([], Inl e)"

definition lift :: "pyerror + 'a \<Rightarrow> 'a run" where
  "lift r = ([], r)"

definition and_then :: "'a run \<Rightarrow> ('a \<Rightarrow> 'b run) \<Rightarrow> 'b run" where
  "and_then m f =
     (case m of
        (outs, Inl e) \<Rightarrow> (outs, Inl e)
      | (outs, Inr x) \<Rightarrow> (case f x of (outs', r) \<Rightarrow> (outs @ outs', r)))"

text \<open>\<^verbatim>\<open>Series.apply\<close> with a function that writes before it stops.\<close>

fun run_rows :: "('a \<Rightarrow> 'b run) \<Rightarrow> 'a list \<Rightarrow> 'b list run" where
  "run_rows f [] = lift (Inr [])"
| "run_rows f (x # xs) =
     and_then (f x) (\<lambda>y. and_then (run_rows f xs) (\<lambda>ys. lift (Inr (y # ys))))"

section \<open>Cleaning the features\<close>

text \<open>\<^verbatim>\<open>x.get('name')\<close>: only a dictionary has the method.\<close>

fun get_name :: "pyval \<Rightarrow> pyerror + pyval" where
  "get_name (PyDict d) = Inr (case dict_get d ''name'' of Some v \<Rightarrow> v | None \<Rightarrow> PyNone)"
| "get_name _ = Inl AttributeError"

text \<open>
  \<^verbatim>\<open>ast.literal_eval(x).get('name') if isinstance(x, str) else x.get('name')\<close>. The library
  function \<^verbatim>\<open>ast.literal_eval\<close> is the parameter \<open>le\<close> of every function that calls it.
\<close>

fun derive_name :: "(string \<Rightarrow> pyerror + pyval) \<Rightarrow> pyval \<Rightarrow> pyerror + pyval" where
  "derive_name le (PyStr x) = (case le x of Inl e \<Rightarrow> Inl e | Inr v \<Rightarrow> get_name v)"
| "derive_name le x = get_name x"

text \<open>\<^verbatim>\<open>df['classification'].notna()\<close>, row by row.\<close>

definition notna :: "pyval \<Rightarrow> bool" where
  "notna v \<longleftrightarrow> v \<noteq> PyNone"

definition with_classification_name :: "'a feature_scheme \<Rightarrow> pyval \<Rightarrow> shape" where
  "with_classification_name f v =
     \<lparr>geometry = geometry f, name = name f, classification = classification f,
      classification_name = v\<rparr>"

text \<open>
  The steps of \<^verbatim>\<open>QC_geojson_file\<close> after the file is read: drop the points, drop the
  rows without classification (KeyError on a frame without that column), drop the
  multipolygons, then derive the classification name of every row left. The result is
  the frame with the rows left, which has the columns of the frame read and
  \<^verbatim>\<open>classification_name\<close>.
\<close>

definition QC_steps ::
  "(string \<Rightarrow> pyerror + pyval) \<Rightarrow> 'a feature_scheme geodataframe \<Rightarrow> pyerror + shape geodataframe" where
  "QC_steps le df =
     (let df1 = filter (\<lambda>f. \<not> is_point (geometry f)) (rows df) in
      if \<not> classification_column df then Inl KeyError
      else
        let df2 = filter (\<lambda>f. notna (classification f)) df1;
            df3 = filter (\<lambda>f. geom_type (geometry f) \<noteq> ''MultiPolygon'') df2
        in case apply_rows
                  (\<lambda>f. case derive_name le (classification f) of
                          Inl e \<Rightarrow> Inl e
                        | Inr v \<Rightarrow> Inr (with_classification_name f v))
                  df3 of
             Inl e \<Rightarrow> Inl e
           | Inr cleaned \<Rightarrow>
               Inr \<lparr>name_column = name_column df, classification_column = True,
                    rows = cleaned\<rparr>)"

definition QC_geojson_file ::
  "(string \<Rightarrow> pyerror + pyval) \<Rightarrow> feature geodataframe \<Rightarrow> shape geodataframe run" where
  "QC_geojson_file le df =
     and_then (emit [(LoggerInfo, GeojsonLoaded (length (rows df))), (LoggerInfo, PointsRemoved)])
       (\<lambda>_. lift (QC_steps le df))"

section \<open>Loading and checking the GeoJSON file\<close>

text \<open>
  One row of \<^verbatim>\<open>calib_np_array\<close>: \<^verbatim>\<open>df.loc[df['name'] == point_name, 'geometry'].values[0]\<close>
  is the geometry of the first feature of that name, IndexError when there is none;
  \<^verbatim>\<open>.x\<close> and \<^verbatim>\<open>.y\<close> exist on a point only. \<^verbatim>\<open>df['name']\<close> raises KeyError when the
  frame has no such column.
\<close>

definition calib_point :: "feature geodataframe \<Rightarrow> string \<Rightarrow> pyerror + (real \<times> real)" where
  "calib_point df point_name =
     (if \<not> name_column df then Inl KeyError
      else case filter (\<lambda>f. name f = Some point_name) (rows df) of
             [] \<Rightarrow> Inl IndexError
           | f # _ \<Rightarrow> (case geometry f of Point x y \<Rightarrow> Inr (x, y) | _ \<Rightarrow> Inl AttributeError))"

definition calib_np_array :: "feature geodataframe \<Rightarrow> string list \<Rightarrow> pyerror + coords" where
  "calib_np_array df list_of_calibpoint_names = apply_rows (calib_point df) list_of_calibpoint_names"

text \<open>The loop that checks for the calibration points: it only logs.\<close>

definition check_calibration_points :: "feature geodataframe \<Rightarrow> string list \<Rightarrow> entry list" where
  "check_calibration_points df list_of_calibpoint_names =
     concat (map (\<lambda>point_name.
        if Some point_name \<notin> set (map name (rows df))
        then [(LoggerError, CalibNameNotPresent point_name),
              (LoggerError, CalibNamesPassed list_of_calibpoint_names),
              (LoggerError, CalibPointsFound
                 (map name (filter (\<lambda>f. geom_type (geometry f) = ''Point'') (rows df))))]
        else []) list_of_calibpoint_names)"

text \<open>
  \<^verbatim>\<open>polygon_intersects_triangle\<close>. The test \<^verbatim>\<open>polygon.intersects(triangle)\<close> of shapely is
  the parameter \<open>isect\<close>; the triangle is \<^verbatim>\<open>shapely.Polygon(calib_np_array)\<close>.
\<close>

fun polygon_intersects_triangle :: "(geometry \<Rightarrow> coords \<Rightarrow> bool) \<Rightarrow> geometry \<Rightarrow> coords \<Rightarrow> bool" where
  "polygon_intersects_triangle isect (Polygon e h) triangle = isect (Polygon e h) triangle"
| "polygon_intersects_triangle isect (LineString c) triangle = isect (LineString c) triangle"
| "polygon_intersects_triangle isect _ triangle = False"

text \<open>
  \<^verbatim>\<open>df['intersects'].sum() / num_of_polygons_and_LineString\<close>. The sum of a Boolean column
  is a numpy integer, and numpy's division of it by a Python integer gives a float: on a
  zero divisor it warns and returns nan for 0/0 and inf otherwise, where Python's own
  integers raise ZeroDivisionError. The rounding of the quotient to a float is left out.
\<close>

definition np_true_divide :: "nat \<Rightarrow> nat \<Rightarrow> np_float" where
  "np_true_divide a b =
     (if b \<noteq> 0 then Finite (real a / real b) else if a = 0 then NaN else PosInf)"

text \<open>\<^verbatim>\<open>intersect_fraction < 0.25\<close>: every comparison with nan is false.\<close>

fun np_less :: "np_float \<Rightarrow> real \<Rightarrow> bool" where
  "np_less (Finite x) y \<longleftrightarrow> x < y"
| "np_less NaN y \<longleftrightarrow> False"
| "np_less PosInf y \<longleftrightarrow> False"

text \<open>Whether a float lies in the interval from 0 to 1; nan and inf do not.\<close>

fun in_unit_interval :: "np_float \<Rightarrow> bool" where
  "in_unit_interval (Finite x) \<longleftrightarrow> 0 \<le> x \<and> x \<le> 1"
| "in_unit_interval NaN \<longleftrightarrow> False"
| "in_unit_interval PosInf \<longleftrightarrow> False"

definition intersects_column :: "(geometry \<Rightarrow> coords \<Rightarrow> bool) \<Rightarrow> feature list \<Rightarrow> coords \<Rightarrow> bool list" where
  "intersects_column isect df triangle =
     map (\<lambda>f. polygon_intersects_triangle isect (geometry f) triangle) df"

definition num_of_polygons_and_LineString :: "feature list \<Rightarrow> nat" where
  "num_of_polygons_and_LineString df =
     length (filter (\<lambda>f. geom_type (geometry f) \<in> set [''Polygon'', ''LineString'']) df)"

definition intersect_fraction :: "(geometry \<Rightarrow> coords \<Rightarrow> bool) \<Rightarrow> feature list \<Rightarrow> coords \<Rightarrow> np_float" where
  "intersect_fraction isect df triangle =
     np_true_divide (length (filter (\<lambda>b. b) (intersects_column isect df triangle)))
       (num_of_polygons_and_LineString df)"

text \<open>
  \<^verbatim>\<open>extract_coordinates\<close>: the exterior ring of a polygon, the coordinates of a line
  string; on any other geometry it writes a message and stops the script.
\<close>

fun extract_coordinates :: "geometry \<Rightarrow> coords run" where
  "extract_coordinates (Polygon exterior _) = lift (Inr exterior)"
| "extract_coordinates (LineString c) = lift (Inr c)"
| "extract_coordinates g =
     and_then (emit [(StWrite, GeometryNotSupported (geom_type g))]) (\<lambda>_. raise Stopped)"

text \<open>
  The part of \<^verbatim>\<open>load_and_QC_geojson_file\<close> after the calibration check: removing the
  points, the rows without classification (KeyError on a frame without that column)
  and the multipolygons, deriving the names and extracting the coordinates.
  \<^verbatim>\<open>geometry.simplify(1)\<close> of shapely is the parameter \<open>simplify\<close>.
\<close>

definition clean_after_calibration ::
  "(string \<Rightarrow> pyerror + pyval) \<Rightarrow> (geometry \<Rightarrow> geometry) \<Rightarrow> feature geodataframe \<Rightarrow> unit run" where
  "clean_after_calibration le simplify df =
     (let df1 = filter (\<lambda>f. \<not> is_point (geometry f)) (rows df);
          nans = length (filter (\<lambda>f. \<not> notna (classification f)) df1);
          df2 = (if nans \<noteq> 0 then filter (\<lambda>f. notna (classification f)) df1 else df1)
      in
      and_then (emit [(LoggerInfo, PointsRemoved)]) (\<lambda>_.
      and_then (if classification_column df then emit [] else raise KeyError) (\<lambda>_.
      and_then (emit (if nans \<noteq> 0 then [(StWrite, NaNClassifications nans)] else [])) (\<lambda>_.
      and_then (lift (apply_rows
                  (\<lambda>f. case derive_name le (classification f) of
                          Inl e \<Rightarrow> Inl e
                        | Inr v \<Rightarrow> Inr (with_classification_name f v)) df2)) (\<lambda>df3.
      let multi = filter (\<lambda>f. geom_type (geometry f) = ''MultiPolygon'') df3;
          df4 = (if multi \<noteq> [] then filter (\<lambda>f. geom_type (geometry f) \<noteq> ''MultiPolygon'') df3
                 else df3)
      in
      and_then (emit (if multi \<noteq> []
                      then [(StWrite, MultiPolygonsPresent),
                            (StTable, MultiPolygonTable
                               (map (\<lambda>f. (name f, classification_name f)) multi)),
                            (StWrite, MultiPolygonsIgnored)]
                      else [])) (\<lambda>_.
      and_then (run_rows (\<lambda>f. extract_coordinates (simplify (geometry f))) df4) (\<lambda>coords.
      emit [(StSuccess, QCComplete)])))))))"

definition load_and_QC_geojson_file ::
  "(string \<Rightarrow> pyerror + pyval) \<Rightarrow> (geometry \<Rightarrow> coords \<Rightarrow> bool) \<Rightarrow> (geometry \<Rightarrow> geometry)
     \<Rightarrow> feature geodataframe \<Rightarrow> string list \<Rightarrow> unit run" where
  "load_and_QC_geojson_file le isect simplify df list_of_calibpoint_names =
     and_then (emit [(LoggerInfo, GeojsonLoaded (length (rows df)))]) (\<lambda>_.
     and_then (if name_column df then emit []
               else and_then (emit [(LoggerWarning, NoNameColumn)]) (\<lambda>_. raise Stopped)) (\<lambda>_.
     and_then (emit ([(LoggerInfo, GeometriesInDataFrame), (StWrite, GeometriesInDataFrame)]
                     @ check_calibration_points df list_of_calibpoint_names)) (\<lambda>_.
     and_then (lift (calib_np_array df list_of_calibpoint_names)) (\<lambda>calib.
     let fraction = intersect_fraction isect (rows df) calib in
     and_then (emit ([(LoggerInfo, PercentWithinTriangle fraction),
                      (StWrite, PercentWithinTriangle fraction)]
                     @ (if np_less fraction 0.25
                        then [(StWrite, LessThan25Percent), (LoggerWarning, LessThan25Percent),
                              (LoggerWarning, PolygonsWarped)]
                        else []))) (\<lambda>_.
     clean_after_calibration le simplify df)))))"

section \<open>A fragment of \<^verbatim>\<open>ast.literal_eval\<close>\<close>

text \<open>
  The functions of the script take \<^verbatim>\<open>ast.literal_eval\<close> as a parameter. \<open>literal_eval\<close>
  below is that library function on a fragment of the Python literals, the one the
  sample-to-well mapping is written in: a dictionary display
  \<^verbatim>\<open>{key:value,...}\<close> with an optional trailing comma, whose keys and values are string
  literals in single or double quotes, without prefix, with no character between the
  tokens. Inside a string literal a character stands for itself when it is printable
  ASCII and neither the backslash nor the closing quote; the escapes covered are
  backslash followed by a backslash, a quote, \<^verbatim>\<open>n\<close>, \<^verbatim>\<open>t\<close>, \<^verbatim>\<open>r\<close>, or \<^verbatim>\<open>x\<close> and two
  hexadecimal digits. On every other text the answer is \<open>Inl Unmodelled\<close>, whether Python
  accepts the text (a number, a list, adjacent or triple-quoted strings, other escapes)
  or rejects it. A character is a code point below 256.
\<close>

datatype token = LBrace | RBrace | Colon | Comma | TString string

datatype lex_state = Outside | Inside char string

definition hex_value :: "char \<Rightarrow> nat option" where
  "hex_value c =
     map_of (zip ''0123456789abcdef'' [0 ..< 16] @ zip ''ABCDEF'' [10 ..< 16]) c"

definition simple_escape :: "char \<Rightarrow> char option" where
  "simple_escape e =
     map_of [(CHR 0x5C, CHR 0x5C), (CHR 0x27, CHR 0x27), (CHR 0x22, CHR 0x22),
             (CHR ''n'', CHR 0x0A), (CHR ''t'', CHR 0x09), (CHR ''r'', CHR 0x0D)] e"

definition printable :: "char \<Rightarrow> bool" where
  "printable c \<longleftrightarrow> 0x20 \<le> (of_char c :: nat) \<and> (of_char c :: nat) \<le> 0x7E"

text \<open>
  The scanner. Outside a string it reads the punctuation and the opening quotes; inside
  a string opened by the quote \<open>q\<close> it collects the characters, last first, up to the
  closing quote.
\<close>

fun lex :: "lex_state \<Rightarrow> token list \<Rightarrow> string \<Rightarrow> token list option" where
  "lex Outside toks [] = Some (rev toks)"
| "lex (Inside q acc) toks [] = None"
| "lex Outside toks (c # cs) =
     (if c = CHR ''{'' then lex Outside (LBrace # toks) cs
      else if c = CHR ''}'' then lex Outside (RBrace # toks) cs
      else if c = CHR '':'' then lex Outside (Colon # toks) cs
      else if c = CHR '','' then lex Outside (Comma # toks) cs
      else if c = CHR 0x22 \<or> c = CHR 0x27 then lex (Inside c []) toks cs
      else None)"
| "lex (Inside q acc) toks (c # cs) =
     (if c = q then lex Outside (TString (rev acc) # toks) cs
      else if c = CHR 0x5C then
        (case cs of
           [] \<Rightarrow> None
         | e # rest \<Rightarrow>
             if e = CHR ''x'' then
               (case rest of
                  h1 # h2 # rest' \<Rightarrow>
                    (case (hex_value h1, hex_value h2) of
                       (Some a, Some b) \<Rightarrow> lex (Inside q (char_of (16 * a + b) # acc)) toks rest'
                     | _ \<Rightarrow> None)
                | _ \<Rightarrow> None)
             else
               (case simple_escape e of
                  Some ch \<Rightarrow> lex (Inside q (ch # acc)) toks rest
                | None \<Rightarrow> None))
      else if printable c then lex (Inside q (c # acc)) toks cs
      else None)"

text \<open>
  The items of the display after its opening brace. A repeated key keeps its place and
  takes the later value.
\<close>

fun parse_items :: "(string \<times> pyval) list \<Rightarrow> token list \<Rightarrow> (string \<times> pyval) list option" where
  "parse_items d [RBrace] = Some d"
| "parse_items d [TString k, Colon, TString v, RBrace] = Some (dict_set d k (PyStr v))"
| "parse_items d (TString k # Colon # TString v # Comma # rest) =
     parse_items (dict_set d k (PyStr v)) rest"
| "parse_items d _ = None"

definition literal_eval :: "string \<Rightarrow> pyerror + pyval" where
  "literal_eval text =
     (case lex Outside [] text of
        Some (LBrace # toks) \<Rightarrow>
          (case parse_items [] toks of
             Some d \<Rightarrow> Inr (PyDict d)
           | None \<Rightarrow> Inl Unmodelled)
      | _ \<Rightarrow> Inl Unmodelled)"

section \<open>Checking the samples and wells, and building the collection\<close>

text \<open>\<^verbatim>\<open>s.replace(c, "")\<close> for a single character \<open>c\<close>.\<close>

definition remove_char :: "char \<Rightarrow> string \<Rightarrow> string" where
  "remove_char c s = filter (\<lambda>x. x \<noteq> c) s"

text \<open>
  The two \<^verbatim>\<open>replace\<close> calls on the text of the mapping, first the newlines, then the
  spaces.
\<close>

definition samples_and_wells_processed :: "string \<Rightarrow> string" where
  "samples_and_wells_processed samples_and_wells_input =
     remove_char (CHR '' '') (remove_char (CHR 0x0A) samples_and_wells_input)"

text \<open>
  \<^verbatim>\<open>samples_and_wells.values()\<close> and \<^verbatim>\<open>.keys()\<close> exist on a dictionary only.
\<close>

fun as_dict :: "pyval \<Rightarrow> pyerror + (string \<times> pyval) list" where
  "as_dict (PyDict d) = Inr d"
| "as_dict _ = Inl AttributeError"

text \<open>
  The loop over the wells of the mapping, with its counter \<^verbatim>\<open>warning_limit\<close>: what it
  writes, and the counter at the end.
\<close>

fun check_wells :: "string list \<Rightarrow> nat \<Rightarrow> pyval list \<Rightarrow> entry list \<times> nat" where
  "check_wells list_of_acceptable_wells warning_limit [] = ([], warning_limit)"
| "check_wells list_of_acceptable_wells warning_limit (well # rest) =
     (if well \<notin> PyStr ` set list_of_acceptable_wells then
        (let warning_limit' = warning_limit + 1;
             (outs, final) = check_wells list_of_acceptable_wells warning_limit' rest
         in ((if warning_limit' < 10 then [(StWrite, WellNotAcceptable well)] else []) @ outs,
             final))
      else check_wells list_of_acceptable_wells warning_limit rest)"

text \<open>
  \<^verbatim>\<open>Series.unique()\<close>: the values in the order of their first occurrence; it hashes
  them, so an unhashable value raises TypeError.
\<close>

definition unique :: "pyval list \<Rightarrow> pyerror + pyval list" where
  "unique xs = (if list_all hashable xs then Inr (rev (remdups (rev xs))) else Inl TypeError)"

text \<open>
  The first lines of \<^verbatim>\<open>load_and_QC_SamplesandWells\<close>: the rows that are no calibration
  point by name, have a classification and are no multipolygon, and the column
  \<^verbatim>\<open>Name\<close> derived from their classifications. KeyError on a frame without the
  \<^verbatim>\<open>name\<close> column, and on one without the \<^verbatim>\<open>classification\<close> column.
\<close>

definition annotation_names ::
  "(string \<Rightarrow> pyerror + pyval) \<Rightarrow> feature geodataframe \<Rightarrow> string list \<Rightarrow> pyerror + pyval list" where
  "annotation_names le df list_of_calibpoint_names =
     (if \<not> name_column df then Inl KeyError
      else
        let df1 = filter (\<lambda>f. \<not> (case name f of
                                     Some n \<Rightarrow> n \<in> set list_of_calibpoint_names
                                   | None \<Rightarrow> False)) (rows df)
        in
        if \<not> classification_column df then Inl KeyError
        else
          let df2 = filter (\<lambda>f. notna (classification f)) df1;
              df3 = filter (\<lambda>f. geom_type (geometry f) \<noteq> ''MultiPolygon'') df2
          in apply_rows (\<lambda>f. derive_name le (classification f)) df3)"

definition load_and_QC_SamplesandWells ::
  "(string \<Rightarrow> pyerror + pyval) \<Rightarrow> feature geodataframe \<Rightarrow> string list \<Rightarrow> string \<Rightarrow> unit run" where
  "load_and_QC_SamplesandWells le df list_of_calibpoint_names samples_and_wells_input =
     and_then (lift (annotation_names le df list_of_calibpoint_names)) (\<lambda>Names.
     and_then (lift (le (samples_and_wells_processed samples_and_wells_input))) (\<lambda>samples_and_wells.
     and_then (emit [(LoggerDebug, CheckingWells)]) (\<lambda>_.
     and_then (lift (as_dict samples_and_wells)) (\<lambda>d.
     let (warnings, warning_limit) = check_wells create_list_of_acceptable_wells 0 (dict_values d)
     in
     and_then (emit (warnings
                     @ (if warning_limit \<ge> 10 then [(StWrite, TenWarnings)] else [])
                     @ [(LoggerDebug, CheckingNames)])) (\<lambda>_.
     and_then (lift (unique Names)) (\<lambda>names.
     and_then (emit (concat (map (\<lambda>name. if name \<notin> PyStr ` set (dict_keys d)
                                           then [(StWrite, NameNotInSamplesAndWells name)]
                                           else []) names))) (\<lambda>_.
     emit [(StSuccess, SamplesAndWellsQCDone)])))))))"

text \<open>
  The collection handed to the library: the calibration points, the orientation
  transform, and the shapes, each a coordinate list with its well.
\<close>

record collection =
  calibration_points :: coords
  orientation_transform :: "int list list"
  shape_list :: "(coords \<times> pyval) list"

text \<open>\<^verbatim>\<open>samples_and_wells[name]\<close>.\<close>

fun well_of :: "(string \<times> pyval) list \<Rightarrow> pyval \<Rightarrow> pyerror + pyval" where
  "well_of d (PyStr k) = (case dict_get d k of Some w \<Rightarrow> Inr w | None \<Rightarrow> Inl KeyError)"
| "well_of d _ = Inl KeyError"

text \<open>
  \<^verbatim>\<open>create_collection\<close>. \<^verbatim>\<open>Series.isin\<close> keeps the rows whose name is a key of the mapping;
  a name that is no string is no key, and its row is dropped. Plotting the collection
  and saving it are calls into the library and are taken not to raise.
  \<^verbatim>\<open>Collection.stats()\<close> takes the minimum and the maximum of the numbers of points of
  the shapes, which numpy refuses with ValueError when the collection has no shape. The
  result is the collection and the plate layout that the function writes to files.
\<close>

definition create_collection ::
  "(string \<Rightarrow> pyerror + pyval) \<Rightarrow> (geometry \<Rightarrow> geometry) \<Rightarrow> feature geodataframe \<Rightarrow> string list \<Rightarrow> string
     \<Rightarrow> (collection \<times> dataframe) run" where
  "create_collection le simplify df list_of_calibpoint_names samples_and_wells_input =
     and_then (lift (calib_np_array df list_of_calibpoint_names)) (\<lambda>calib.
     and_then (if classification_column df then emit [] else raise KeyError) (\<lambda>_.
     let df1 = filter (\<lambda>f. \<not> is_point (geometry f)) (rows df);
         df2 = filter (\<lambda>f. notna (classification f)) df1;
         df3 = filter (\<lambda>f. geom_type (geometry f) \<noteq> ''MultiPolygon'') df2
     in
     and_then (run_rows (\<lambda>f. extract_coordinates (simplify (geometry f))) df3) (\<lambda>coords.
     and_then (lift (apply_rows (\<lambda>f. derive_name le (classification f)) df3)) (\<lambda>Names.
     and_then (lift (le (samples_and_wells_processed samples_and_wells_input))) (\<lambda>samples_and_wells.
     and_then (lift (as_dict samples_and_wells)) (\<lambda>d.
     let kept = filter (\<lambda>(c, n). n \<in> PyStr ` set (dict_keys d)) (zip coords Names)
     in
     and_then (lift (apply_rows (\<lambda>(c, n). case well_of d n of
                                               Inl e \<Rightarrow> Inl e
                                             | Inr w \<Rightarrow> Inr (c, w)) kept)) (\<lambda>the_shapes.
     and_then (emit [(StImage, TheCollectionImage)]) (\<lambda>_.
     and_then (if the_shapes = [] then raise ValueError
               else emit [(StWrite, TheCollectionStats)]) (\<lambda>_.
     and_then (lift (sample_placement_384wp d)) (\<lambda>df_wp384.
     lift (Inr (\<lparr>calibration_points = calib,
                   orientation_transform = [[1, 0], [0, - 1]],
                   shape_list = the_shapes\<rparr>, df_wp384))))))))))))"

section \<open>Labelling the shapes with metadata\<close>

text \<open>
  The table that \<^verbatim>\<open>pandas.read_csv\<close> returns, by column header. pandas infers the type of
  each column: a column of text holds strings, with NaN for an empty cell, and a column
  whose cells all read as integers holds integers. Columns of floats and of Booleans are
  left out. All columns of a table are taken to have the same length, and the frame of
  the shapes to have the \<^verbatim>\<open>id\<close> column that the function drops at its end.
\<close>

datatype column = TextColumn "string option list" | IntColumn "int list"

datatype csv_value = CsvText string | CsvInt int | CsvNaN

type_synonym table = "(string \<times> column) list"

fun column_values :: "column \<Rightarrow> csv_value list" where
  "column_values (TextColumn xs) = map (\<lambda>x. case x of Some s \<Rightarrow> CsvText s | None \<Rightarrow> CsvNaN) xs"
| "column_values (IntColumn xs) = map CsvInt xs"

text \<open>\<^verbatim>\<open>.astype(str)\<close>: a string stays, NaN becomes \<^verbatim>\<open>nan\<close>, an integer its decimal form.\<close>

fun astype_str :: "column \<Rightarrow> string list" where
  "astype_str (TextColumn xs) = map (\<lambda>x. case x of Some s \<Rightarrow> s | None \<Rightarrow> ''nan'') xs"
| "astype_str (IntColumn xs) = map str_int xs"

text \<open>
  \<^verbatim>\<open>str.strip()\<close> removes the whitespace at both ends; the whitespace characters below
  code point 256 are those of \<^verbatim>\<open>str.isspace\<close>.
\<close>

definition isspace :: "char \<Rightarrow> bool" where
  "isspace c \<longleftrightarrow>
     (of_char c :: nat) \<in> set [0x09, 0x0A, 0x0B, 0x0C, 0x0D, 0x1C, 0x1D, 0x1E, 0x1F, 0x20, 0x85, 0xA0]"

definition strip :: "string \<Rightarrow> string" where
  "strip s = rev (dropWhile isspace (rev (dropWhile isspace s)))"

text \<open>\<^verbatim>\<open>metadata[key]\<close>: KeyError when the table has no such column.\<close>

definition get_column :: "table \<Rightarrow> string \<Rightarrow> pyerror + column" where
  "get_column metadata key = (case dict_get metadata key of Some c \<Rightarrow> Inr c | None \<Rightarrow> Inl KeyError)"

text \<open>
  \<^verbatim>\<open>set(shapes['classification_name'])\<close>: building the set hashes the names, so an
  unhashable name raises TypeError.
\<close>

definition shape_names_set :: "shape list \<Rightarrow> pyerror + pyval set" where
  "shape_names_set shapes =
     (if list_all hashable (map classification_name shapes)
      then Inr (set (map classification_name shapes)) else Inl TypeError)"

text \<open>
  \<^verbatim>\<open>metadata[key].astype(str).str.strip()\<close>, the name column as \<^verbatim>\<open>check_ids\<close> overwrites
  it, and \<^verbatim>\<open>set(metadata[key])\<close> after that.
\<close>

definition stripped_names :: "column \<Rightarrow> string list" where
  "stripped_names col = map strip (astype_str col)"

definition metadata_names_set :: "column \<Rightarrow> pyval set" where
  "metadata_names_set col = PyStr ` set (stripped_names col)"

text \<open>
  \<^verbatim>\<open>check_ids\<close>. It answers whether every shape name is among the stripped names of the
  metadata; the result here is that answer and the metadata as the function leaves it.
\<close>

definition check_ids :: "shape list \<Rightarrow> table \<Rightarrow> string \<Rightarrow> (bool \<times> table) run" where
  "check_ids shapes metadata metadata_name_key =
     and_then (emit [(LoggerDebug, RunningCheckIds)]) (\<lambda>_.
     and_then (lift (get_column metadata metadata_name_key)) (\<lambda>col.
     let metadata' = dict_set metadata metadata_name_key
                       (TextColumn (map Some (stripped_names col)))
     in
     and_then (emit [(LoggerDebug, MetadataNamesStripped),
                     (LoggerDebug, MetadataShape (length (stripped_names col)))]) (\<lambda>_.
     and_then (lift (shape_names_set shapes)) (\<lambda>names.
     and_then (emit [(LoggerDebug, FirstShapeNames), (LoggerDebug, FirstMetadataNames)]) (\<lambda>_.
     if names \<subseteq> metadata_names_set col
     then and_then (emit [(LoggerInfo, AllShapeNamesFound), (StWrite, AllShapeNamesFound)])
            (\<lambda>_. lift (Inr (True, metadata')))
     else and_then (emit [(LoggerError, NotFoundInMetadata (names - metadata_names_set col)),
                          (LoggerError, OverlappingNames (names \<inter> metadata_names_set col))])
            (\<lambda>_. lift (Inr (False, metadata'))))))))"

text \<open>
  \<^verbatim>\<open>parse_metadata_csv\<close>: the table, or an error in the log and the end of the script when
  \<^verbatim>\<open>pandas.read_csv\<close> raises. The outcome of \<^verbatim>\<open>read_csv\<close> is the argument, \<open>None\<close> when it
  raises.
\<close>

definition parse_metadata_csv :: "table option \<Rightarrow> table run" where
  "parse_metadata_csv csv =
     (case csv of
        Some df \<Rightarrow> lift (Inr df)
      | None \<Rightarrow> and_then (emit [(LoggerError, CsvReadError)]) (\<lambda>_. raise Stopped))"

text \<open>A shape as the function exports it.\<close>

record labelled_shape =
  shape_geometry :: geometry
  shape_name :: pyval
  shape_classification :: pyval

definition default_colors :: "int list list" where
  "default_colors = [[31, 119, 180], [255, 127, 14], [44, 160, 44], [214, 39, 40], [148, 103, 189]]"

text \<open>
  \<^verbatim>\<open>metadata[key].astype("category").cat.categories.astype(str)\<close>: the distinct values of
  the column that are not NaN, sorted, as strings.
\<close>

fun categories :: "column \<Rightarrow> string list" where
  "categories (TextColumn xs) = sort (remdups (concat (map (\<lambda>x. case x of Some s \<Rightarrow> [s] | None \<Rightarrow> []) xs)))"
| "categories (IntColumn xs) = map str_int (sort (remdups xs))"

text \<open>\<^verbatim>\<open>dict(zip(categories, itertools.cycle(default_colors)))\<close>.\<close>

definition color_dict :: "string list \<Rightarrow> (string \<times> int list) list" where
  "color_dict cats =
     assign_pairs []
       (zip cats (map (\<lambda>i. default_colors ! (i mod length default_colors)) [0 ..< length cats]))"

text \<open>
  \<^verbatim>\<open>{'name': x, 'color': color_dict[x]}\<close>. The keys of \<^verbatim>\<open>color_dict\<close> are strings; \<open>x\<close> is the
  value of the table as it is, so an integer or NaN is no key of it.
\<close>

fun new_classification :: "(string \<times> int list) list \<Rightarrow> csv_value \<Rightarrow> pyerror + pyval" where
  "new_classification cd (CsvText s) =
     (case dict_get cd s of
        Some c \<Rightarrow> Inr (PyDict [(''name'', PyStr s), (''color'', PyList (map PyInt c))])
      | None \<Rightarrow> Inl KeyError)"
| "new_classification cd (CsvInt i) = Inl KeyError"
| "new_classification cd CsvNaN = Inl KeyError"

text \<open>\<^verbatim>\<open>shapes["classification_name"].map(mapping)\<close>, for one name: NaN where no key matches.\<close>

fun map_name :: "(string \<times> csv_value) list \<Rightarrow> pyval \<Rightarrow> csv_value" where
  "map_name mapping (PyStr n) = (case dict_get mapping n of Some v \<Rightarrow> v | None \<Rightarrow> CsvNaN)"
| "map_name mapping _ = CsvNaN"

text \<open>
  The part of \<^verbatim>\<open>process_geojson_with_metadata\<close> after the assertion: the mapping from
  name to value, the colour of each category, and the new classification and name of
  every shape.
\<close>

definition label_shapes :: "shape list \<Rightarrow> table \<Rightarrow> string \<Rightarrow> string \<Rightarrow> pyerror + labelled_shape list" where
  "label_shapes shapes metadata metadata_name_key metadata_variable_key =
     (case get_column metadata metadata_name_key of
        Inl e \<Rightarrow> Inl e
      | Inr names \<Rightarrow>
     (case get_column metadata metadata_variable_key of
        Inl e \<Rightarrow> Inl e
      | Inr variable \<Rightarrow>
          (let mapping = assign_pairs [] (zip (astype_str names) (column_values variable));
               cd = color_dict (categories variable)
           in apply_rows
                (\<lambda>s. case new_classification cd (map_name mapping (classification_name s)) of
                        Inl e \<Rightarrow> Inl e
                      | Inr c \<Rightarrow> Inr \<lparr>shape_geometry = geometry s,
                                      shape_name = classification_name s,
                                      shape_classification = c\<rparr>)
                shapes)))"

definition process_geojson_with_metadata ::
  "(string \<Rightarrow> pyerror + pyval) \<Rightarrow> feature geodataframe \<Rightarrow> table option \<Rightarrow> string \<Rightarrow> string
     \<Rightarrow> labelled_shape list run" where
  "process_geojson_with_metadata le df csv metadata_name_key metadata_variable_key =
     and_then (QC_geojson_file le df) (\<lambda>shapes.
     and_then (parse_metadata_csv csv) (\<lambda>metadata.
     and_then (check_ids (rows shapes) metadata metadata_name_key) (\<lambda>checked.
     and_then (if fst checked then emit [] else raise AssertionError) (\<lambda>_.
     lift (label_shapes (rows shapes) (snd checked) metadata_name_key metadata_variable_key)))))"

section \<open>Example inputs\<close>

text \<open>
  Inputs for the examples below. The two library parameters are instantiated by an
  intersection test that holds of every geometry and by a simplification that changes
  nothing. The example file has the three calibration points \<^verbatim>\<open>calib1\<close>, \<^verbatim>\<open>calib2\<close>,
  \<^verbatim>\<open>calib3\<close>, to which the examples add annotations; its features have the properties
  \<^verbatim>\<open>name\<close> and \<^verbatim>\<open>classification\<close>, which is null for the calibration points, so the frame
  has both columns.
\<close>

definition every_geometry_intersects :: "geometry \<Rightarrow> coords \<Rightarrow> bool" where
  "every_geometry_intersects g triangle = True"

definition unsimplified :: "geometry \<Rightarrow> geometry" where
  "unsimplified g = g"

definition calibration_names :: "string list" where
  "calibration_names = [''calib1'', ''calib2'', ''calib3'']"

definition calibration_features :: "feature list" where
  "calibration_features =
     [\<lparr>geometry = Point 0 0, name = Some ''calib1'', classification = PyNone\<rparr>,
      \<lparr>geometry = Point 100 0, name = Some ''calib2'', classification = PyNone\<rparr>,
      \<lparr>geometry = Point 0 100, name = Some ''calib3'', classification = PyNone\<rparr>]"

text \<open>An annotated square whose classification is the dictionary with that name.\<close>

definition square :: "string \<Rightarrow> feature" where
  "square class_name =
     \<lparr>geometry = Polygon [(10, 10), (20, 10), (20, 20), (10, 20), (10, 10)] [],
      name = None,
      classification = PyDict [(''name'', PyStr class_name), (''color'', PyList [PyInt 200, PyInt 0, PyInt 0])]\<rparr>"

definition example_file :: "feature list \<Rightarrow> feature geodataframe" where
  "example_file annotations =
     \<lparr>name_column = True, classification_column = True,
      rows = calibration_features @ annotations\<rparr>"

text \<open>
  A file to clean: the calibration points, a square whose classification is a
  dictionary, a line string whose classification is the text of a literal, an
  unclassified square, and a classified multipolygon.
\<close>

definition uncleaned_features :: "feature list" where
  \<open>uncleaned_features =
     calibration_features @
     [square ''tumor'',
      \<lparr>geometry = LineString [(0, 0), (5, 5)], name = Some ''cut'',
       classification = PyStr ''{"name":"stroma"}''\<rparr>,
      (square ''none'')\<lparr>classification := PyNone\<rparr>,
      \<lparr>geometry = MultiPolygon [([(0, 0), (1, 0), (1, 1), (0, 0)], [])], name = None,
       classification = PyDict [(''name'', PyStr ''tumor'')]\<rparr>]\<close>

definition cleaned_features :: "shape list" where
  \<open>cleaned_features =
     [with_classification_name (square ''tumor'') (PyStr ''tumor''),
      \<lparr>geometry = LineString [(0, 0), (5, 5)], name = Some ''cut'',
       classification = PyStr ''{"name":"stroma"}'',
       classification_name = PyStr ''stroma''\<rparr>]\<close>

text \<open>The two frames with these rows; both have the two columns.\<close>

definition uncleaned_file :: "feature geodataframe" where
  "uncleaned_file =
     \<lparr>name_column = True, classification_column = True, rows = uncleaned_features\<rparr>"

definition cleaned_file :: "shape geodataframe" where
  "cleaned_file =
     \<lparr>name_column = True, classification_column = True, rows = cleaned_features\<rparr>"

text \<open>A mapping with ten wells of row A, which is outside the acceptable rows C to N.\<close>

definition ten_wells_of_row_A :: string where
  \<open>ten_wells_of_row_A =
     ''{"s1":"A1","s2":"A2","s3":"A3","s4":"A4","s5":"A5",'' @
     ''"s6":"A6","s7":"A7","s8":"A8","s9":"A9","s10":"A10"}''\<close>

text \<open>
  The text \<^verbatim>\<open>{"a\x20b":"C3"}\<close> of a mapping whose key is written with the escape of the
  space, and the text \<^verbatim>\<open>{"a b": "C 3"}\<close> of one written with spaces.
\<close>

definition escaped_space_mapping :: string where
  \<open>escaped_space_mapping = ''{"a'' @ CHR 0x5C # ''x20b":"C3"}''\<close>

definition spaced_mapping :: string where
  \<open>spaced_mapping = ''{"a b": "C 3"}''\<close>

text \<open>
  Two tables for the shapes of \<open>uncleaned_features\<close>, whose names are \<^verbatim>\<open>tumor\<close> and
  \<^verbatim>\<open>stroma\<close>: in the first the status is text, in the second it is an integer.
\<close>

definition status_as_text :: table where
  "status_as_text =
     [(''Class name'', TextColumn [Some ''tumor '', Some '' stroma'', Some ''other'']),
      (''status'', TextColumn [Some ''collected'', Some ''open'', Some ''open''])]"

definition status_as_integer :: table where
  "status_as_integer =
     [(''Class name'', TextColumn [Some ''tumor '', Some '' stroma'', Some ''other'']),
      (''status'', IntColumn [1, 0, 0])]"

text \<open>A table that names \<^verbatim>\<open>tumor\<close> only.\<close>

definition tumor_only :: table where
  "tumor_only =
     [(''Class name'', TextColumn [Some ''tumor'']),
      (''status'', TextColumn [Some ''collected''])]"

section \<open>Properties of the class-list generator\<close>

lemma itertools_product3_product:
  "itertools_product3 xs ys zs = map (\<lambda>(a, b, c). (a, b, c)) (List.product xs (List.product ys zs))"
  by (simp add: itertools_product3_def product_concat_map map_concat comp_def)

lemma div_mod_block:
  fixes r m i :: nat
  assumes "r < m"
  shows "(i * m + r) div m = i" and "(i * m + r) mod m = r"
  using assms by simp_all

lemma length_itertools_product3:
  "length (itertools_product3 xs ys zs) = length xs * length ys * length zs"
  by (simp add: itertools_product3_product)

lemma nth_itertools_product3:
  assumes "i < length xs" "j < length ys" "k < length zs"
  shows "itertools_product3 xs ys zs ! ((i * length ys + j) * length zs + k) = (xs ! i, ys ! j, zs ! k)"
proof -
  let ?m = "length ys * length zs"
  let ?n = "(i * length ys + j) * length zs + k"
  have n_eq: "?n = i * ?m + (j * length zs + k)"
    by (simp add: algebra_simps)
  have inner: "j * length zs + k < ?m"
  proof -
    have "j * length zs + k < j * length zs + length zs" using assms(3) by simp
    also have "\<dots> = (Suc j) * length zs" by simp
    also have "\<dots> \<le> length ys * length zs" using assms(2) by (intro mult_le_mono1) simp
    finally show ?thesis .
  qed
  have outer: "?n < length xs * ?m"
  proof -
    have "?n < i * ?m + ?m" using inner n_eq by simp
    also have "\<dots> = Suc i * ?m" by simp
    also have "\<dots> \<le> length xs * ?m" using assms(1) by (intro mult_le_mono1) simp
    finally show ?thesis .
  qed
  have d1: "?n div ?m = i" unfolding n_eq using inner by (rule div_mod_block)
  have m1: "?n mod ?m = j * length zs + k" unfolding n_eq using inner by (rule div_mod_block)
  have d2: "(j * length zs + k) div length zs = j" using assms(3) by (rule div_mod_block)
  have m2: "(j * length zs + k) mod length zs = k" using assms(3) by (rule div_mod_block)
  have "List.product xs (List.product ys zs) ! ?n = (xs ! i, List.product ys zs ! (j * length zs + k))"
    using outer d1 m1 by (simp add: product_nth)
  also have "List.product ys zs ! (j * length zs + k) = (ys ! j, zs ! k)"
    using inner d2 m2 by (simp add: product_nth)
  finally show ?thesis
    using outer by (simp add: itertools_product3_product)
qed

lemma length_range_1_to: "length (range_1_to num) = nat num"
  by (simp add: range_1_to_def)

lemma nth_range_1_to: "k < nat num \<Longrightarrow> range_1_to num ! k = int k + 1"
  by (simp add: range_1_to_def)

theorem generate_combinations_order:
  "(0 < num \<longrightarrow>
     (\<exists>keys. generate_combinations list1 list2 num = Inr keys
        \<and> length keys = length list1 * length list2 * nat num
        \<and> (\<forall>i < length list1. \<forall>j < length list2. \<forall>k < nat num.
              keys ! ((i * length list2 + j) * nat num + k)
                = list1 ! i @ ''_'' @ list2 ! j @ ''_'' @ str_int (int k + 1))))
   \<and> generate_combinations [''A'', ''B''] [''1''] 2 = Inr [''A_1_1'', ''A_1_2'', ''B_1_1'', ''B_1_2'']"
proof (intro conjI impI)
  assume pos: "0 < num"
  let ?p = "itertools_product3 list1 list2 (range_1_to num)"
  have len: "length ?p = length list1 * length list2 * nat num"
    by (simp add: length_itertools_product3 length_range_1_to)
  have nth: "map combination_name ?p ! ((i * length list2 + j) * nat num + k)
      = list1 ! i @ ''_'' @ list2 ! j @ ''_'' @ str_int (int k + 1)"
    if "i < length list1" "j < length list2" "k < nat num" for i j k
  proof -
    let ?n = "(i * length list2 + j) * nat num + k"
    have p: "?p ! ?n = (list1 ! i, list2 ! j, int k + 1)"
      using nth_itertools_product3 [of i list1 j list2 k "range_1_to num"] that
      by (simp add: length_range_1_to nth_range_1_to)
    have "?n < length ?p"
    proof -
      have "k + (i * length list2 + j) * nat num < Suc (i * length list2 + j) * nat num"
        using that(3) by simp
      also have "Suc (i * length list2 + j) \<le> Suc i * length list2" using that(2) by simp
      then have "Suc (i * length list2 + j) * nat num \<le> Suc i * length list2 * nat num"
        by (rule mult_le_mono1)
      also have "Suc i * length list2 * nat num \<le> length list1 * length list2 * nat num"
        using that(1) by (intro mult_le_mono1) simp
      finally show ?thesis by (simp add: len add.commute)
    qed
    then show ?thesis by (simp add: p combination_name_def)
  qed
  show "\<exists>keys. generate_combinations list1 list2 num = Inr keys
        \<and> length keys = length list1 * length list2 * nat num
        \<and> (\<forall>i < length list1. \<forall>j < length list2. \<forall>k < nat num.
              keys ! ((i * length list2 + j) * nat num + k)
                = list1 ! i @ ''_'' @ list2 ! j @ ''_'' @ str_int (int k + 1))"
    using pos len nth by (simp add: generate_combinations_def)
next
  have r: "range_1_to 2 = [1, 2]"
    by (simp add: range_1_to_def numeral_2_eq_2)
  have s1: "str_int 1 = ''1''" and s2: "str_int 2 = ''2''"
    by (simp_all add: str_int_def str_nat.simps digit_char_def)
  show "generate_combinations [''A'', ''B''] [''1''] 2 = Inr [''A_1_1'', ''A_1_2'', ''B_1_1'', ''B_1_2'']"
    by (simp add: generate_combinations_def itertools_product3_def r combination_name_def s1 s2)
qed

theorem generate_combinations_order_witness:
  "0 < (3::int)
   \<and> (\<exists>keys. generate_combinations [''A'', ''B''] [''x'', ''y''] 3 = Inr keys
         \<and> length keys = 12 \<and> keys ! 10 = ''B_y_2'')"
proof -
  have pos: "0 < (3::int)" by simp
  have s2: "str_int 2 = ''2''"
    by (simp add: str_int_def str_nat.simps digit_char_def)
  from generate_combinations_order [of 3 "[''A'', ''B'']" "[''x'', ''y'']", THEN conjunct1, rule_format, OF pos]
  obtain keys where k1: "generate_combinations [''A'', ''B''] [''x'', ''y''] 3 = Inr keys"
    and k2: "length keys = length [''A'', ''B''] * length [''x'', ''y''] * nat 3"
    and k3: "\<forall>i < length [''A'', ''B'']. \<forall>j < length [''x'', ''y'']. \<forall>k < nat 3.
          keys ! ((i * length [''x'', ''y''] + j) * nat 3 + k)
           = [''A'', ''B''] ! i @ ''_'' @ [''x'', ''y''] ! j @ ''_'' @ str_int (int k + 1)"
    by blast
  have "keys ! ((1 * length [''x'', ''y''] + 1) * nat 3 + 1)
      = [''A'', ''B''] ! 1 @ ''_'' @ [''x'', ''y''] ! 1 @ ''_'' @ str_int (int 1 + 1)"
    by (rule k3 [rule_format]) simp_all
  then have "keys ! 10 = ''B_y_2''" by (simp add: s2)
  with k1 k2 pos show ?thesis by simp
qed

section \<open>Properties of the default sample-to-well scheme\<close>

lemma dict_set_append_new:
  "k \<notin> fst ` set d \<Longrightarrow> dict_set d k v = d @ [(k, v)]"
  by (induction d) auto

lemma assign_pairs_append:
  "distinct (map fst ps) \<Longrightarrow> fst ` set d \<inter> fst ` set ps = {} \<Longrightarrow> assign_pairs d ps = d @ ps"
proof (induction ps arbitrary: d)
  case Nil
  then show ?case by simp
next
  case (Cons p ps)
  obtain s w where p: "p = (s, w)" by (cases p)
  have new: "s \<notin> fst ` set d" using Cons.prems(2) p by auto
  have "assign_pairs (d @ [(s, w)]) ps = (d @ [(s, w)]) @ ps"
  proof (rule Cons.IH)
    show "distinct (map fst ps)" using Cons.prems(1) by simp
    show "fst ` set (d @ [(s, w)]) \<inter> fst ` set ps = {}"
      using Cons.prems p by auto
  qed
  then show ?case by (simp add: p dict_set_append_new [OF new])
qed

theorem create_default_samples_and_wells_pairs:
  "(length samples > length wells \<longrightarrow>
      create_default_samples_and_wells samples wells = Inl AssertionError)
   \<and> (length samples \<le> length wells \<and> distinct samples \<longrightarrow>
        (\<exists>d. create_default_samples_and_wells samples wells = Inr d
           \<and> d = zip samples wells
           \<and> dict_keys d = samples
           \<and> (\<forall>i < length samples. dict_get d (samples ! i) = Some (wells ! i))
           \<and> (distinct wells \<longrightarrow>
                (\<forall>i < length samples. \<forall>j < length samples.
                   i \<noteq> j \<longrightarrow> dict_get d (samples ! i) \<noteq> dict_get d (samples ! j)))))"
proof (intro conjI impI)
  assume "length samples > length wells"
  then show "create_default_samples_and_wells samples wells = Inl AssertionError"
    by (simp add: create_default_samples_and_wells_def)
next
  assume a: "length samples \<le> length wells \<and> distinct samples"
  let ?d = "zip samples wells"
  have keys: "map fst ?d = samples"
    using a by (simp add: map_fst_zip_take)
  have "assign_pairs [] ?d = [] @ ?d"
    by (rule assign_pairs_append) (use a keys in simp_all)
  then have res: "create_default_samples_and_wells samples wells = Inr ?d"
    using a by (simp add: create_default_samples_and_wells_def)
  have get: "dict_get ?d (samples ! i) = Some (wells ! i)" if "i < length samples" for i
  proof -
    have "zip samples (take (length samples) wells) = ?d"
      using zip_append1 [of samples "[]" wells] by simp
    moreover have "map_of (zip samples (take (length samples) wells)) (samples ! i)
        = Some (take (length samples) wells ! i)"
      using a that by (intro map_of_zip_nth) simp_all
    ultimately show ?thesis using that by (simp add: dict_get_def)
  qed
  have inj: "dict_get ?d (samples ! i) \<noteq> dict_get ?d (samples ! j)"
    if "distinct wells" "i < length samples" "j < length samples" "i \<noteq> j" for i j
    using that a by (simp add: get nth_eq_iff_index_eq)
  show "\<exists>d. create_default_samples_and_wells samples wells = Inr d
           \<and> d = zip samples wells
           \<and> dict_keys d = samples
           \<and> (\<forall>i < length samples. dict_get d (samples ! i) = Some (wells ! i))
           \<and> (distinct wells \<longrightarrow>
                (\<forall>i < length samples. \<forall>j < length samples.
                   i \<noteq> j \<longrightarrow> dict_get d (samples ! i) \<noteq> dict_get d (samples ! j)))"
    using res keys get inj by (simp add: dict_keys_def)
qed

theorem create_default_samples_and_wells_pairs_witness:
  "length [''s1'', ''s2''] \<le> length [''C3'', ''C5'', ''C7''] \<and> distinct [''s1'', ''s2'']
   \<and> distinct [''C3'', ''C5'', ''C7'']
   \<and> create_default_samples_and_wells [''s1'', ''s2''] [''C3'', ''C5'', ''C7'']
       = Inr [(''s1'', ''C3''), (''s2'', ''C5'')]
   \<and> create_default_samples_and_wells [''s1'', ''s2''] [''C3''] = Inl AssertionError"
  using create_default_samples_and_wells_pairs [of "[''C3'', ''C5'', ''C7'']" "[''s1'', ''s2'']"]
    create_default_samples_and_wells_pairs [of "[''C3'']" "[''s1'', ''s2'']"]
  by simp

section \<open>Properties of the plate layout\<close>

lemma get_loc_less: "l \<in> set xs \<Longrightarrow> get_loc xs l < length xs"
  by (induction xs) auto

lemma get_loc_nth: "l \<in> set xs \<Longrightarrow> xs ! get_loc xs l = l"
  by (induction xs) auto

lemma get_loc_append: "l \<in> set xs \<Longrightarrow> get_loc (xs @ ys) l = get_loc xs l"
  by (induction xs) auto

lemma get_loc_inj: "l \<in> set xs \<Longrightarrow> get_loc xs l = get_loc xs l' \<Longrightarrow> l' \<in> set xs \<Longrightarrow> l = l'"
  by (metis get_loc_nth)

lemma wf_add_column: "wf_frame df \<Longrightarrow> wf_frame (add_column df c)"
  by (auto simp: wf_frame_def add_column_def)

lemma wf_add_row: "wf_frame df \<Longrightarrow> wf_frame (add_row df r)"
  by (auto simp: wf_frame_def add_row_def)

lemma wf_set_cell:
  assumes "wf_frame df"
  shows "wf_frame (set_cell df r c v)"
proof (cases "get_loc (index df) r < length (data df)")
  case False
  then have "length (data df) \<le> get_loc (index df) r" by simp
  then have "(data df)[get_loc (index df) r := (data df ! get_loc (index df) r)[get_loc (columns df) c := v]]
      = data df"
    by (rule list_update_beyond)
  then have "set_cell df r c v = df" by (simp add: set_cell_def Let_def)
  then show ?thesis using assms by simp
next
  case True
  let ?i = "get_loc (index df) r"
  let ?row = "(data df ! ?i)[get_loc (columns df) c := v]"
  have "length ?row = length (columns df)"
    using assms True by (simp add: wf_frame_def)
  moreover have "set ((data df)[?i := ?row]) \<subseteq> insert ?row (set (data df))"
    by (rule set_update_subset_insert)
  ultimately have "\<forall>row \<in> set ((data df)[?i := ?row]). length row = length (columns df)"
    using assms by (auto simp: wf_frame_def)
  then show ?thesis using assms by (simp add: set_cell_def Let_def wf_frame_def)
qed

lemma wf_at_set: "wf_frame df \<Longrightarrow> wf_frame (at_set df r c v)"
  by (simp add: at_set_def wf_add_column wf_add_row wf_set_cell)

lemma index_at_set:
  "index (at_set df r c v) = (if r \<in> set (index df) then index df else index df @ [r])"
  by (simp add: at_set_def set_cell_def add_row_def add_column_def Let_def)

lemma columns_at_set:
  "columns (at_set df r c v) = (if c \<in> set (columns df) then columns df else columns df @ [c])"
  by (simp add: at_set_def set_cell_def add_row_def add_column_def Let_def)

lemma cell_at_add_column:
  assumes "wf_frame df" "cell_at df r' c' = Some x"
  shows "cell_at (add_column df c) r' c' = Some x"
proof -
  from assms(2) have r': "r' \<in> set (index df)" and c': "c' \<in> set (columns df)"
    and x: "data df ! get_loc (index df) r' ! get_loc (columns df) c' = x"
    by (auto simp: cell_at_def split: if_splits)
  have i: "get_loc (index df) r' < length (data df)"
    using assms(1) r' by (simp add: wf_frame_def get_loc_less)
  then have "length (data df ! get_loc (index df) r') = length (columns df)"
    using assms(1) by (simp add: wf_frame_def)
  then have j: "get_loc (columns df) c' < length (data df ! get_loc (index df) r')"
    using c' by (simp add: get_loc_less)
  show ?thesis
    using r' c' x i j
    by (simp add: cell_at_def add_column_def get_loc_append nth_append)
qed

lemma cell_at_add_row:
  assumes "wf_frame df" "cell_at df r' c' = Some x"
  shows "cell_at (add_row df r) r' c' = Some x"
proof -
  from assms(2) have r': "r' \<in> set (index df)" and c': "c' \<in> set (columns df)"
    and x: "data df ! get_loc (index df) r' ! get_loc (columns df) c' = x"
    by (auto simp: cell_at_def split: if_splits)
  have i: "get_loc (index df) r' < length (data df)"
    using assms(1) r' by (simp add: wf_frame_def get_loc_less)
  show ?thesis
    using r' c' x i
    by (simp add: cell_at_def add_row_def get_loc_append nth_append)
qed

lemma cell_at_set_cell:
  assumes "wf_frame df" "r \<in> set (index df)" "c \<in> set (columns df)"
  shows "cell_at (set_cell df r c v) r' c' =
     (if r' = r \<and> c' = c then Some v else cell_at df r' c')"
proof (cases "r' \<in> set (index df) \<and> c' \<in> set (columns df)")
  case False
  then show ?thesis using assms by (auto simp: cell_at_def set_cell_def Let_def)
next
  case True
  let ?i = "get_loc (index df) r" and ?j = "get_loc (columns df) c"
  let ?i' = "get_loc (index df) r'" and ?j' = "get_loc (columns df) c'"
  have i: "?i < length (data df)" "?i' < length (data df)"
    using assms True by (simp_all add: wf_frame_def get_loc_less)
  have len: "length (data df ! ?i) = length (columns df)"
    using assms(1) i by (simp add: wf_frame_def)
  have j: "?j < length (data df ! ?i)" "?j' < length (data df ! ?i)"
    using assms True len by (simp_all add: get_loc_less)
  have ri: "?i' = ?i \<longleftrightarrow> r' = r" using assms(2) True by (metis get_loc_inj)
  have cj: "?j' = ?j \<longleftrightarrow> c' = c" using assms(3) True by (metis get_loc_inj)
  show ?thesis
    using True i j ri cj
    by (auto simp: cell_at_def set_cell_def Let_def nth_list_update)
qed

lemma cell_at_at_set_same:
  assumes "wf_frame df"
  shows "cell_at (at_set df r c v) r c = Some v"
proof -
  let ?d = "add_row (add_column df c) r"
  have "wf_frame ?d" using assms by (simp add: wf_add_column wf_add_row)
  moreover have "r \<in> set (index ?d)" by (simp add: add_row_def)
  moreover have "c \<in> set (columns ?d)" by (simp add: add_row_def add_column_def)
  ultimately show ?thesis by (simp add: at_set_def cell_at_set_cell)
qed

lemma cell_at_at_set_other:
  assumes "wf_frame df" "cell_at df r' c' = Some x" "\<not> (r' = r \<and> c' = c)"
  shows "cell_at (at_set df r c v) r' c' = Some x"
proof -
  let ?d = "add_row (add_column df c) r"
  have wf: "wf_frame ?d" using assms(1) by (simp add: wf_add_column wf_add_row)
  have "r \<in> set (index ?d)" by (simp add: add_row_def)
  moreover have "c \<in> set (columns ?d)" by (simp add: add_row_def add_column_def)
  moreover have "cell_at ?d r' c' = Some x"
    using assms(1,2) by (simp add: cell_at_add_column cell_at_add_row wf_add_column)
  ultimately show ?thesis using wf assms(3) by (auto simp: at_set_def cell_at_set_cell)
qed

lemma wf_place_sample: "place_sample df i loc = Inr df' \<Longrightarrow> wf_frame df \<Longrightarrow> wf_frame df'"
  by (induction df i loc rule: place_sample.induct) (auto simp: wf_at_set)

lemma place_sample_Inr:
  "place_sample df i loc = Inr df' \<Longrightarrow> \<exists>c cs. loc = PyStr (c # cs) \<and> df' = at_set df [c] cs (Text i)"
  by (induction df i loc rule: place_sample.induct) auto

lemma place_samples_total:
  "wf_frame df \<Longrightarrow> \<forall>loc \<in> snd ` set d. \<exists>c cs. loc = PyStr (c # cs)
     \<Longrightarrow> \<exists>p. place_samples df d = Inr p \<and> wf_frame p"
proof (induction d arbitrary: df)
  case Nil
  then show ?case by simp
next
  case (Cons a d)
  obtain i loc where a: "a = (i, loc)" by (cases a)
  from Cons.prems(2) a obtain c cs where loc: "loc = PyStr (c # cs)" by auto
  have "wf_frame (at_set df [c] cs (Text i))" using Cons.prems(1) by (rule wf_at_set)
  moreover have "\<forall>loc \<in> snd ` set d. \<exists>c cs. loc = PyStr (c # cs)" using Cons.prems(2) by simp
  ultimately have "\<exists>p. place_samples (at_set df [c] cs (Text i)) d = Inr p \<and> wf_frame p"
    by (rule Cons.IH)
  then show ?case by (simp add: a loc)
qed

lemma place_samples_keeps:
  "place_samples df d = Inr p \<Longrightarrow> wf_frame df \<Longrightarrow> cell_at df r c = Some x
     \<Longrightarrow> \<forall>k ks. PyStr (k # ks) \<in> snd ` set d \<longrightarrow> \<not> ([k] = r \<and> ks = c)
     \<Longrightarrow> cell_at p r c = Some x"
proof (induction d arbitrary: df)
  case Nil
  then show ?case by simp
next
  case (Cons a d)
  obtain i loc where a: "a = (i, loc)" by (cases a)
  from Cons.prems(1) a obtain df' where df': "place_sample df i loc = Inr df'"
    and rest: "place_samples df' d = Inr p"
    by (auto split: sum.splits)
  from place_sample_Inr [OF df'] obtain k ks where loc: "loc = PyStr (k # ks)"
    and at: "df' = at_set df [k] ks (Text i)" by blast
  have ne: "\<not> (r = [k] \<and> c = ks)" using Cons.prems(4) a loc by force
  have "cell_at df' r c = Some x"
    unfolding at using Cons.prems(2,3) ne by (rule cell_at_at_set_other)
  moreover have "wf_frame df'" using df' Cons.prems(2) by (rule wf_place_sample)
  moreover have "\<forall>k ks. PyStr (k # ks) \<in> snd ` set d \<longrightarrow> \<not> ([k] = r \<and> ks = c)"
    using Cons.prems(4) by simp
  ultimately show ?case using rest Cons.IH by blast
qed

lemma place_samples_last:
  "place_samples df (d1 @ (i, PyStr (c # cs)) # d2) = Inr p \<Longrightarrow> wf_frame df
     \<Longrightarrow> PyStr (c # cs) \<notin> snd ` set d2 \<Longrightarrow> cell_at p [c] cs = Some (Text i)"
proof (induction d1 arbitrary: df)
  case Nil
  let ?df = "at_set df [c] cs (Text i)"
  from Nil.prems(1) have rest: "place_samples ?df d2 = Inr p" by simp
  have "wf_frame ?df" using Nil.prems(2) by (rule wf_at_set)
  moreover have "cell_at ?df [c] cs = Some (Text i)" using Nil.prems(2) by (rule cell_at_at_set_same)
  moreover have "\<forall>k ks. PyStr (k # ks) \<in> snd ` set d2 \<longrightarrow> \<not> ([k] = [c] \<and> ks = cs)"
    using Nil.prems(3) by auto
  ultimately show ?case using rest place_samples_keeps by blast
next
  case (Cons a d1)
  obtain j loc where a: "a = (j, loc)" by (cases a)
  from Cons.prems(1) a obtain df' where df': "place_sample df j loc = Inr df'"
    and rest: "place_samples df' (d1 @ (i, PyStr (c # cs)) # d2) = Inr p"
    by (auto split: sum.splits)
  have "wf_frame df'" using df' Cons.prems(2) by (rule wf_place_sample)
  with rest show ?case using Cons.prems(3) by (rule Cons.IH)
qed

lemma place_samples_labels:
  "place_samples df d = Inr p
     \<Longrightarrow> \<forall>k ks. PyStr (k # ks) \<in> snd ` set d \<longrightarrow> [k] \<in> set (index df) \<and> ks \<in> set (columns df)
     \<Longrightarrow> index p = index df \<and> columns p = columns df"
proof (induction d arbitrary: df)
  case Nil
  then show ?case by simp
next
  case (Cons a d)
  obtain i loc where a: "a = (i, loc)" by (cases a)
  from Cons.prems(1) a obtain df' where df': "place_sample df i loc = Inr df'"
    and rest: "place_samples df' d = Inr p"
    by (auto split: sum.splits)
  from place_sample_Inr [OF df'] obtain k ks where loc: "loc = PyStr (k # ks)"
    and at: "df' = at_set df [k] ks (Text i)" by blast
  have "[k] \<in> set (index df) \<and> ks \<in> set (columns df)" using Cons.prems(2) a loc by force
  then have same: "index df' = index df" "columns df' = columns df"
    by (simp_all add: at index_at_set columns_at_set)
  have "\<forall>k ks. PyStr (k # ks) \<in> snd ` set d \<longrightarrow> [k] \<in> set (index df') \<and> ks \<in> set (columns df')"
    using Cons.prems(2) same by simp
  with rest have "index p = index df' \<and> columns p = columns df'" by (rule Cons.IH)
  then show ?case using same by simp
qed

lemma place_samples_empty_label:
  "\<forall>loc \<in> snd ` set d. \<exists>c cs. loc = PyStr (c # cs)
     \<Longrightarrow> place_samples df (d @ (i, PyStr []) # d') = Inl IndexError"
proof (induction d arbitrary: df)
  case Nil
  then show ?case by simp
next
  case (Cons a d)
  obtain j loc where a: "a = (j, loc)" by (cases a)
  from Cons.prems a obtain c cs where loc: "loc = PyStr (c # cs)" by auto
  have "\<forall>loc \<in> snd ` set d. \<exists>c cs. loc = PyStr (c # cs)" using Cons.prems by simp
  then have "place_samples (at_set df [c] cs (Text j)) (d @ (i, PyStr []) # d') = Inl IndexError"
    by (rule Cons.IH)
  then show ?case by (simp add: a loc)
qed

lemma rows_A_P_eval: "rows_A_P = map (\<lambda>d. [d]) ''ABCDEFGHIJKLMNOP''"
  by (simp add: rows_A_P_def ascii_uppercase_def)

lemma columns_1_24_eval:
  "columns_1_24 = map (\<lambda>d. [d]) ''123456789'' @ map (\<lambda>d. [CHR ''1'', d]) ''0123456789''
     @ map (\<lambda>d. [CHR ''2'', d]) ''01234''"
  by code_simp

lemma wf_empty_wp384: "wf_frame empty_wp384"
proof -
  have "distinct rows_A_P" unfolding rows_A_P_eval by simp
  moreover have "distinct columns_1_24" unfolding columns_1_24_eval by simp
  ultimately show ?thesis by (simp add: wf_frame_def empty_wp384_def)
qed

lemma cell_at_empty_wp384:
  "r \<in> set rows_A_P \<Longrightarrow> c \<in> set columns_1_24 \<Longrightarrow> cell_at empty_wp384 r c = Some (Text '''')"
  by (simp add: cell_at_def empty_wp384_def get_loc_less)

text \<open>
  Claim C5. For the mapping \<^verbatim>\<open>{"a":"C3","b":"D10"}\<close>, \<^verbatim>\<open>sample_placement_384wp\<close> returns a
  grid with the 16 row labels A to P and the 24 column labels 1 to 24, every row of 24
  cells, with \<^verbatim>\<open>"a"\<close> at row C column 3, \<^verbatim>\<open>"b"\<close> at row D column 10, and the empty
  string in the 382 other cells.
\<close>

theorem sample_placement_384wp_example:
  "\<exists>p. sample_placement_384wp [(''a'', PyStr ''C3''), (''b'', PyStr ''D10'')] = Inr p
     \<and> index p = map (\<lambda>d. [d]) ''ABCDEFGHIJKLMNOP''
     \<and> columns p = map (\<lambda>d. [d]) ''123456789'' @ map (\<lambda>d. [CHR ''1'', d]) ''0123456789''
          @ map (\<lambda>d. [CHR ''2'', d]) ''01234''
     \<and> map length (data p) = replicate 16 24
     \<and> cell_at p ''C'' ''3'' = Some (Text ''a'')
     \<and> cell_at p ''D'' ''10'' = Some (Text ''b'')
     \<and> length (filter (\<lambda>c. c = Text '''') (concat (data p))) = 382"
proof -
  let ?p = "at_set (at_set empty_wp384 ''C'' ''3'' (Text ''a'')) ''D'' ''10'' (Text ''b'')"
  have 0: "sample_placement_384wp [(''a'', PyStr ''C3''), (''b'', PyStr ''D10'')] = Inr ?p"
    by (simp add: sample_placement_384wp_def)
  have 1: "index ?p = map (\<lambda>d. [d]) ''ABCDEFGHIJKLMNOP''"
    by code_simp
  have 2: "columns ?p = map (\<lambda>d. [d]) ''123456789'' @ map (\<lambda>d. [CHR ''1'', d]) ''0123456789''
          @ map (\<lambda>d. [CHR ''2'', d]) ''01234''"
    by code_simp
  have 3: "map length (data ?p) = replicate 16 24"
    by code_simp
  have 4: "cell_at ?p ''C'' ''3'' = Some (Text ''a'')"
    by code_simp
  have 5: "cell_at ?p ''D'' ''10'' = Some (Text ''b'')"
    by code_simp
  have 6: "length (filter (\<lambda>c. c = Text '''') (concat (data ?p))) = 382"
    by code_simp
  show ?thesis
    using 0 1 2 3 4 5 6 by blast
qed

text \<open>
  Claim C3, as stated, fails: no well label makes \<^verbatim>\<open>sample_placement_384wp\<close> fail with
  an error for invalid labels. The label \<^verbatim>\<open>ZZ99\<close> is accepted and the frame grows by the
  row \<^verbatim>\<open>Z\<close> and the column \<^verbatim>\<open>Z99\<close>; the label \<^verbatim>\<open>C03\<close>, whose remainder parses as the
  integer 3, does not reach column 3 but a new column \<^verbatim>\<open>03\<close>.
\<close>

theorem sample_placement_384wp_unchecked_label:
  "sample_placement_384wp [(''b'', PyStr ''ZZ99'')]
     = Inr (at_set empty_wp384 ''Z'' ''Z99'' (Text ''b''))
   \<and> index (at_set empty_wp384 ''Z'' ''Z99'' (Text ''b'')) = rows_A_P @ [''Z'']
   \<and> columns (at_set empty_wp384 ''Z'' ''Z99'' (Text ''b'')) = columns_1_24 @ [''Z99'']
   \<and> cell_at (at_set empty_wp384 ''Z'' ''Z99'' (Text ''b'')) ''Z'' ''Z99'' = Some (Text ''b'')
   \<and> sample_placement_384wp [(''s'', PyStr ''C03'')]
     = Inr (at_set empty_wp384 ''C'' ''03'' (Text ''s''))
   \<and> columns (at_set empty_wp384 ''C'' ''03'' (Text ''s'')) = columns_1_24 @ [''03'']
   \<and> cell_at (at_set empty_wp384 ''C'' ''03'' (Text ''s'')) ''C'' ''03'' = Some (Text ''s'')
   \<and> cell_at (at_set empty_wp384 ''C'' ''03'' (Text ''s'')) ''C'' ''3'' = Some (Text '''')"
proof -
  have 0: "sample_placement_384wp [(''b'', PyStr ''ZZ99'')]
      = Inr (at_set empty_wp384 ''Z'' ''Z99'' (Text ''b''))"
    by (simp add: sample_placement_384wp_def)
  have 1: "index (at_set empty_wp384 ''Z'' ''Z99'' (Text ''b'')) = rows_A_P @ [''Z'']"
    by code_simp
  have 2: "columns (at_set empty_wp384 ''Z'' ''Z99'' (Text ''b'')) = columns_1_24 @ [''Z99'']"
    by code_simp
  have 3: "cell_at (at_set empty_wp384 ''Z'' ''Z99'' (Text ''b'')) ''Z'' ''Z99'' = Some (Text ''b'')"
    by code_simp
  have 4: "sample_placement_384wp [(''s'', PyStr ''C03'')]
      = Inr (at_set empty_wp384 ''C'' ''03'' (Text ''s''))"
    by (simp add: sample_placement_384wp_def)
  have 5: "columns (at_set empty_wp384 ''C'' ''03'' (Text ''s'')) = columns_1_24 @ [''03'']"
    by code_simp
  have 6: "cell_at (at_set empty_wp384 ''C'' ''03'' (Text ''s'')) ''C'' ''03'' = Some (Text ''s'')"
    by code_simp
  have 7: "cell_at (at_set empty_wp384 ''C'' ''03'' (Text ''s'')) ''C'' ''3'' = Some (Text '''')"
    by code_simp
  show ?thesis using 0 1 2 3 4 5 6 7 by simp
qed

text \<open>
  Claim C3, amended. \<^verbatim>\<open>sample_placement_384wp\<close> checks no label. When every well label
  is a non-empty string it returns a frame, and the sample of each label (the last one
  in the mapping, when several samples have the same label) is in the cell keyed by the
  label's first character and its remaining characters as a string. When moreover the
  first character of every label is a row A to P and its remainder is literally one of
  the column labels 1 to 24, the frame keeps its 16 rows and 24 columns and the cells
  that no label names stay empty strings. An empty label raises IndexError.
\<close>

theorem sample_placement_384wp_labels:
  "((\<forall>loc \<in> snd ` set d. \<exists>c cs. loc = PyStr (c # cs)) \<longrightarrow>
      (\<exists>p. sample_placement_384wp d = Inr p
         \<and> (\<forall>d1 i c cs d2. d = d1 @ (i, PyStr (c # cs)) # d2 \<and> PyStr (c # cs) \<notin> snd ` set d2
               \<longrightarrow> cell_at p [c] cs = Some (Text i))
         \<and> ((\<forall>k ks. PyStr (k # ks) \<in> snd ` set d
                 \<longrightarrow> [k] \<in> set rows_A_P \<and> ks \<in> set columns_1_24)
              \<longrightarrow> index p = rows_A_P \<and> columns p = columns_1_24
                \<and> (\<forall>r \<in> set rows_A_P. \<forall>c \<in> set columns_1_24.
                      PyStr (r @ c) \<notin> snd ` set d \<longrightarrow> cell_at p r c = Some (Text '''')))
         \<and> sample_placement_384wp (d @ (i0, PyStr []) # d') = Inl IndexError))"
proof (intro impI)
  assume strs: "\<forall>loc \<in> snd ` set d. \<exists>c cs. loc = PyStr (c # cs)"
  from place_samples_total [OF wf_empty_wp384 strs]
  obtain p where p: "place_samples empty_wp384 d = Inr p" by blast
  have last: "cell_at p [c] cs = Some (Text i)"
    if "d = d1 @ (i, PyStr (c # cs)) # d2 \<and> PyStr (c # cs) \<notin> snd ` set d2" for d1 i c cs d2
    using p that place_samples_last [OF _ wf_empty_wp384, of d1 i c cs d2 p] by simp
  have grid: "index p = rows_A_P \<and> columns p = columns_1_24
      \<and> (\<forall>r \<in> set rows_A_P. \<forall>c \<in> set columns_1_24.
            PyStr (r @ c) \<notin> snd ` set d \<longrightarrow> cell_at p r c = Some (Text ''''))"
    if ok: "\<forall>k ks. PyStr (k # ks) \<in> snd ` set d \<longrightarrow> [k] \<in> set rows_A_P \<and> ks \<in> set columns_1_24"
  proof -
    have "index p = index empty_wp384 \<and> columns p = columns empty_wp384"
      using p by (rule place_samples_labels) (use ok in \<open>simp add: empty_wp384_def\<close>)
    then have labels: "index p = rows_A_P" "columns p = columns_1_24"
      by (simp_all add: empty_wp384_def)
    have "cell_at p r c = Some (Text '''')"
      if "r \<in> set rows_A_P" "c \<in> set columns_1_24" "PyStr (r @ c) \<notin> snd ` set d" for r c
    proof -
      have "\<forall>k ks. PyStr (k # ks) \<in> snd ` set d \<longrightarrow> \<not> ([k] = r \<and> ks = c)"
        using that(3) by force
      with p wf_empty_wp384 cell_at_empty_wp384 [OF that(1,2)] show ?thesis
        by (rule place_samples_keeps)
    qed
    with labels show ?thesis by blast
  qed
  have "sample_placement_384wp (d @ (i0, PyStr []) # d') = Inl IndexError"
    unfolding sample_placement_384wp_def using strs by (rule place_samples_empty_label)
  with p last grid
  show "\<exists>p. sample_placement_384wp d = Inr p
         \<and> (\<forall>d1 i c cs d2. d = d1 @ (i, PyStr (c # cs)) # d2 \<and> PyStr (c # cs) \<notin> snd ` set d2
               \<longrightarrow> cell_at p [c] cs = Some (Text i))
         \<and> ((\<forall>k ks. PyStr (k # ks) \<in> snd ` set d
                 \<longrightarrow> [k] \<in> set rows_A_P \<and> ks \<in> set columns_1_24)
              \<longrightarrow> index p = rows_A_P \<and> columns p = columns_1_24
                \<and> (\<forall>r \<in> set rows_A_P. \<forall>c \<in> set columns_1_24.
                      PyStr (r @ c) \<notin> snd ` set d \<longrightarrow> cell_at p r c = Some (Text '''')))
         \<and> sample_placement_384wp (d @ (i0, PyStr []) # d') = Inl IndexError"
    unfolding sample_placement_384wp_def by blast
qed

theorem sample_placement_384wp_labels_witness:
  "\<exists>p. sample_placement_384wp [(''a'', PyStr ''C3''), (''b'', PyStr ''C3''), (''c'', PyStr ''D10'')] = Inr p
     \<and> cell_at p ''C'' ''3'' = Some (Text ''b'')
     \<and> cell_at p ''D'' ''10'' = Some (Text ''c'')
     \<and> index p = rows_A_P \<and> columns p = columns_1_24
     \<and> cell_at p ''A'' ''1'' = Some (Text '''')
     \<and> sample_placement_384wp
          ([(''a'', PyStr ''C3''), (''b'', PyStr ''C3''), (''c'', PyStr ''D10'')] @ [(''e'', PyStr '''')])
        = Inl IndexError"
proof -
  let ?d = "[(''a'', PyStr ''C3''), (''b'', PyStr ''C3''), (''c'', PyStr ''D10'')]"
  have strs: "\<forall>loc \<in> snd ` set ?d. \<exists>c cs. loc = PyStr (c # cs)" by simp
  have ok: "\<forall>k ks. PyStr (k # ks) \<in> snd ` set ?d \<longrightarrow> [k] \<in> set rows_A_P \<and> ks \<in> set columns_1_24"
    by (auto simp: rows_A_P_eval columns_1_24_eval)
  from sample_placement_384wp_labels [of ?d "''e''" "[]", THEN mp, OF strs]
  obtain p where p: "sample_placement_384wp ?d = Inr p"
    and last: "\<forall>d1 i c cs d2. ?d = d1 @ (i, PyStr (c # cs)) # d2 \<and> PyStr (c # cs) \<notin> snd ` set d2
               \<longrightarrow> cell_at p [c] cs = Some (Text i)"
    and grid: "(\<forall>k ks. PyStr (k # ks) \<in> snd ` set ?d
                 \<longrightarrow> [k] \<in> set rows_A_P \<and> ks \<in> set columns_1_24)
              \<longrightarrow> index p = rows_A_P \<and> columns p = columns_1_24
                \<and> (\<forall>r \<in> set rows_A_P. \<forall>c \<in> set columns_1_24.
                      PyStr (r @ c) \<notin> snd ` set ?d \<longrightarrow> cell_at p r c = Some (Text ''''))"
    and err: "sample_placement_384wp (?d @ (''e'', PyStr []) # []) = Inl IndexError"
    by blast
  have b: "cell_at p ''C'' ''3'' = Some (Text ''b'')"
    using last [rule_format, of "[(''a'', PyStr ''C3'')]" "''b''" "CHR ''C''" "''3''" "[(''c'', PyStr ''D10'')]"]
    by simp
  have c: "cell_at p ''D'' ''10'' = Some (Text ''c'')"
    using last [rule_format, of "[(''a'', PyStr ''C3''), (''b'', PyStr ''C3'')]" "''c''" "CHR ''D''" "''10''" "[]"]
    by simp
  from grid ok have g: "index p = rows_A_P" "columns p = columns_1_24"
    and e: "\<forall>r \<in> set rows_A_P. \<forall>c \<in> set columns_1_24.
                      PyStr (r @ c) \<notin> snd ` set ?d \<longrightarrow> cell_at p r c = Some (Text '''')"
    by blast+
  have "''A'' \<in> set rows_A_P" "''1'' \<in> set columns_1_24"
    by (simp_all add: rows_A_P_eval columns_1_24_eval)
  with e have a1: "cell_at p ''A'' ''1'' = Some (Text '''')" by force
  show ?thesis using p b c g a1 err by simp
qed

section \<open>Properties of loading and checking the GeoJSON file\<close>

lemma and_then_Inr: "and_then (outs, Inr x) f = (case f x of (outs', r) \<Rightarrow> (outs @ outs', r))"
  by (simp add: and_then_def)

lemma and_then_Inl: "and_then (outs, Inl e) f = (outs, Inl e)"
  by (simp add: and_then_def)

lemmas run_simps = emit_def raise_def lift_def and_then_Inr and_then_Inl

lemma apply_rows_Inl_at:
  "x \<in> set xs \<Longrightarrow> f x = Inl e \<Longrightarrow> \<exists>e'. apply_rows f xs = Inl e'"
  by (induction xs) (auto split: sum.splits)

lemma apply_rows_Inl_range:
  "apply_rows f xs = Inl e \<Longrightarrow> \<exists>x \<in> set xs. f x = Inl e"
  by (induction xs) (auto split: sum.splits)

lemma calib_point_missing:
  assumes "name_column df" "Some point_name \<notin> set (map name (rows df))"
  shows "calib_point df point_name = Inl IndexError"
proof -
  from assms have "filter (\<lambda>f. name f = Some point_name) (rows df) = []"
    by (force simp: filter_empty_conv)
  with assms show ?thesis by (simp add: calib_point_def)
qed

lemma calib_point_errors:
  "name_column df \<Longrightarrow> calib_point df point_name = Inl e \<Longrightarrow> e = IndexError \<or> e = AttributeError"
  by (auto simp: calib_point_def split: list.splits geometry.splits)

lemma calib_np_array_missing:
  assumes "name_column df" "point_name \<in> set list_of_calibpoint_names"
    "Some point_name \<notin> set (map name (rows df))"
  shows "\<exists>e. calib_np_array df list_of_calibpoint_names = Inl e \<and> (e = IndexError \<or> e = AttributeError)"
proof -
  from assms have "calib_point df point_name = Inl IndexError" by (simp add: calib_point_missing)
  with assms have "\<exists>e. apply_rows (calib_point df) list_of_calibpoint_names = Inl e"
    by (intro apply_rows_Inl_at [of point_name list_of_calibpoint_names "calib_point df" IndexError])
      simp_all
  then obtain e where e: "calib_np_array df list_of_calibpoint_names = Inl e"
    by (auto simp: calib_np_array_def)
  then have "\<exists>n \<in> set list_of_calibpoint_names. calib_point df n = Inl e"
    unfolding calib_np_array_def by (rule apply_rows_Inl_range)
  then obtain n where "calib_point df n = Inl e" ..
  with assms have "e = IndexError \<or> e = AttributeError"
    by (intro calib_point_errors [of df n e]) simp_all
  with e show ?thesis by (intro exI [of _ e] conjI)
qed

lemma load_and_QC_geojson_file_calib_error:
  assumes "name_column df" "calib_np_array df list_of_calibpoint_names = Inl e"
  shows "load_and_QC_geojson_file le isect simplify df list_of_calibpoint_names
          = ([(LoggerInfo, GeojsonLoaded (length (rows df))),
              (LoggerInfo, GeometriesInDataFrame), (StWrite, GeometriesInDataFrame)]
             @ check_calibration_points df list_of_calibpoint_names, Inl e)"
  using assms by (simp add: load_and_QC_geojson_file_def run_simps)

lemma example_calib_np_array:
  "calib_np_array (example_file annotations) calibration_names = Inr [(0, 0), (100, 0), (0, 100)]"
  by (simp add: calib_np_array_def calib_point_def example_file_def calibration_features_def
      calibration_names_def)

text \<open>
  Claim C1, as stated, fails: with the calibration point \<^verbatim>\<open>calib4\<close> requested and absent
  from the file, the run logs the three error lines and then ends with IndexError where
  it builds the calibration array. It writes no intersection fraction and reaches no
  cleaning step.
\<close>

theorem load_and_QC_geojson_file_stops_at_missing_point:
  "load_and_QC_geojson_file literal_eval every_geometry_intersects unsimplified
     (example_file [square ''tumor'']) [''calib1'', ''calib2'', ''calib4'']
   = ([(LoggerInfo, GeojsonLoaded 4),
       (LoggerInfo, GeometriesInDataFrame), (StWrite, GeometriesInDataFrame),
       (LoggerError, CalibNameNotPresent ''calib4''),
       (LoggerError, CalibNamesPassed [''calib1'', ''calib2'', ''calib4'']),
       (LoggerError, CalibPointsFound [Some ''calib1'', Some ''calib2'', Some ''calib3''])],
      Inl IndexError)"
  by (simp add: load_and_QC_geojson_file_def run_simps example_file_def calibration_features_def
      square_def check_calibration_points_def calib_np_array_def calib_point_def)

text \<open>
  Claim C1, amended. When a requested calibration name is not among the names of the
  features, the checking loop logs the errors for it (the name, the names requested, the
  names of the points found) and goes on to the next name; the run then ends with an
  exception where it builds the calibration array, IndexError at the missing name or
  AttributeError at an earlier name whose first feature is no point. What the run has
  written by then is the loading line, the geometry histogram and the errors of the
  loop: it builds no triangle and runs no cleaning step.
\<close>

theorem load_and_QC_geojson_file_missing_calibration_point:
  "name_column df \<and> point_name \<in> set list_of_calibpoint_names
     \<and> Some point_name \<notin> set (map name (rows df)) \<longrightarrow>
   (\<exists>e. load_and_QC_geojson_file le isect simplify df list_of_calibpoint_names
          = ([(LoggerInfo, GeojsonLoaded (length (rows df))),
              (LoggerInfo, GeometriesInDataFrame), (StWrite, GeometriesInDataFrame)]
             @ check_calibration_points df list_of_calibpoint_names, Inl e)
        \<and> (e = IndexError \<or> e = AttributeError))
   \<and> (LoggerError, CalibNameNotPresent point_name)
        \<in> set (check_calibration_points df list_of_calibpoint_names)
   \<and> (LoggerError, CalibNamesPassed list_of_calibpoint_names)
        \<in> set (check_calibration_points df list_of_calibpoint_names)
   \<and> (LoggerError, CalibPointsFound
          (map name (filter (\<lambda>f. geom_type (geometry f) = ''Point'') (rows df))))
        \<in> set (check_calibration_points df list_of_calibpoint_names)"
proof (intro impI)
  assume a: "name_column df \<and> point_name \<in> set list_of_calibpoint_names
     \<and> Some point_name \<notin> set (map name (rows df))"
  then obtain e where e: "calib_np_array df list_of_calibpoint_names = Inl e"
    and kind: "e = IndexError \<or> e = AttributeError"
    using calib_np_array_missing [of df point_name list_of_calibpoint_names] by auto
  from a e have "load_and_QC_geojson_file le isect simplify df list_of_calibpoint_names
          = ([(LoggerInfo, GeojsonLoaded (length (rows df))),
              (LoggerInfo, GeometriesInDataFrame), (StWrite, GeometriesInDataFrame)]
             @ check_calibration_points df list_of_calibpoint_names, Inl e)"
    by (simp add: load_and_QC_geojson_file_calib_error)
  with kind have first: "\<exists>e. load_and_QC_geojson_file le isect simplify df list_of_calibpoint_names
          = ([(LoggerInfo, GeojsonLoaded (length (rows df))),
              (LoggerInfo, GeometriesInDataFrame), (StWrite, GeometriesInDataFrame)]
             @ check_calibration_points df list_of_calibpoint_names, Inl e)
        \<and> (e = IndexError \<or> e = AttributeError)"
    by (intro exI [of _ e] conjI)
  have logs: "(LoggerError, CalibNameNotPresent point_name)
        \<in> set (check_calibration_points df list_of_calibpoint_names)"
      "(LoggerError, CalibNamesPassed list_of_calibpoint_names)
        \<in> set (check_calibration_points df list_of_calibpoint_names)"
      "(LoggerError, CalibPointsFound
          (map name (filter (\<lambda>f. geom_type (geometry f) = ''Point'') (rows df))))
        \<in> set (check_calibration_points df list_of_calibpoint_names)"
    using a by (auto simp: check_calibration_points_def)
  from first logs
  show "(\<exists>e. load_and_QC_geojson_file le isect simplify df list_of_calibpoint_names
          = ([(LoggerInfo, GeojsonLoaded (length (rows df))),
              (LoggerInfo, GeometriesInDataFrame), (StWrite, GeometriesInDataFrame)]
             @ check_calibration_points df list_of_calibpoint_names, Inl e)
        \<and> (e = IndexError \<or> e = AttributeError))
   \<and> (LoggerError, CalibNameNotPresent point_name)
        \<in> set (check_calibration_points df list_of_calibpoint_names)
   \<and> (LoggerError, CalibNamesPassed list_of_calibpoint_names)
        \<in> set (check_calibration_points df list_of_calibpoint_names)
   \<and> (LoggerError, CalibPointsFound
          (map name (filter (\<lambda>f. geom_type (geometry f) = ''Point'') (rows df))))
        \<in> set (check_calibration_points df list_of_calibpoint_names)"
    by (intro conjI)
qed

theorem load_and_QC_geojson_file_missing_calibration_point_witness:
  "(\<exists>e. load_and_QC_geojson_file literal_eval every_geometry_intersects unsimplified
          (example_file [square ''tumor'']) [''calib1'', ''calib2'', ''calib4'']
          = ([(LoggerInfo, GeojsonLoaded 4),
              (LoggerInfo, GeometriesInDataFrame), (StWrite, GeometriesInDataFrame)]
             @ check_calibration_points (example_file [square ''tumor''])
                 [''calib1'', ''calib2'', ''calib4''], Inl e)
        \<and> (e = IndexError \<or> e = AttributeError))
   \<and> (LoggerError, CalibNameNotPresent ''calib4'')
        \<in> set (check_calibration_points (example_file [square ''tumor''])
                  [''calib1'', ''calib2'', ''calib4''])"
proof -
  have hyp: "name_column (example_file [square ''tumor''])
     \<and> ''calib4'' \<in> set [''calib1'', ''calib2'', ''calib4'']
     \<and> Some ''calib4'' \<notin> set (map name (rows (example_file [square ''tumor''])))"
    by (simp add: example_file_def calibration_features_def square_def)
  have len: "length (rows (example_file [square ''tumor''])) = 4"
    by (simp add: example_file_def calibration_features_def)
  from load_and_QC_geojson_file_missing_calibration_point
    [of "example_file [square ''tumor'']" "''calib4''" "[''calib1'', ''calib2'', ''calib4'']"
        literal_eval every_geometry_intersects unsimplified, THEN mp, OF hyp]
  show ?thesis unfolding len by (intro conjI) (erule conjunct1, elim conjE, assumption)
qed

section \<open>Properties of the calibration intersect fraction\<close>

lemma intersects_count:
  "length (filter (\<lambda>b. b) (intersects_column isect df triangle))
     = length (filter (\<lambda>f. geom_type (geometry f) \<in> set [''Polygon'', ''LineString'']
                           \<and> isect (geometry f) triangle) df)"
proof (induction df)
  case Nil
  then show ?case by (simp add: intersects_column_def)
next
  case (Cons f df)
  then show ?case
    by (cases "geometry f") (simp_all add: intersects_column_def)
qed

lemma intersects_count_le:
  "length (filter (\<lambda>b. b) (intersects_column isect df triangle)) \<le> num_of_polygons_and_LineString df"
proof -
  have "length (filter (\<lambda>f. geom_type (geometry f) \<in> set [''Polygon'', ''LineString'']
                           \<and> isect (geometry f) triangle) df)
      \<le> length (filter (\<lambda>f. geom_type (geometry f) \<in> set [''Polygon'', ''LineString'']) df)"
    by (induction df) auto
  then show ?thesis by (simp add: intersects_count num_of_polygons_and_LineString_def)
qed

lemma intersects_count_zero:
  "num_of_polygons_and_LineString df = 0
     \<Longrightarrow> length (filter (\<lambda>b. b) (intersects_column isect df triangle)) = 0"
  using intersects_count_le [of isect df triangle] by simp

lemma load_and_QC_geojson_file_fraction:
  assumes "name_column df" "calib_np_array df list_of_calibpoint_names = Inr triangle"
  shows "(StWrite, PercentWithinTriangle (intersect_fraction isect (rows df) triangle))
     \<in> set (fst (load_and_QC_geojson_file le isect simplify df list_of_calibpoint_names))"
  using assms
  by (simp add: load_and_QC_geojson_file_def run_simps Let_def split: prod.splits)

text \<open>
  Claim C2, as stated, fails: for a file with the three calibration points and no
  polygon or line string the division is carried out with the divisor 0, and the
  fraction that the run writes is nan, which is not in the interval from 0 to 1. No
  exception is raised: the run goes on to its end.
\<close>

theorem load_and_QC_geojson_file_fraction_nan:
  "load_and_QC_geojson_file literal_eval every_geometry_intersects unsimplified
     (example_file []) calibration_names
   = ([(LoggerInfo, GeojsonLoaded 3),
       (LoggerInfo, GeometriesInDataFrame), (StWrite, GeometriesInDataFrame),
       (LoggerInfo, PercentWithinTriangle NaN), (StWrite, PercentWithinTriangle NaN),
       (LoggerInfo, PointsRemoved),
       (StSuccess, QCComplete)], Inr ())
   \<and> num_of_polygons_and_LineString (rows (example_file [])) = 0
   \<and> intersect_fraction every_geometry_intersects (rows (example_file []))
        [(0, 0), (100, 0), (0, 100)] = NaN
   \<and> \<not> in_unit_interval NaN"
proof -
  have r: "rows (example_file []) = calibration_features" "name_column (example_file [])"
    by (simp_all add: example_file_def)
  have n: "num_of_polygons_and_LineString calibration_features = 0"
    by (simp add: num_of_polygons_and_LineString_def calibration_features_def)
  have f: "intersect_fraction every_geometry_intersects calibration_features triangle = NaN"
    for triangle
    by (simp add: intersect_fraction_def np_true_divide_def n intersects_count_zero)
  have c: "check_calibration_points (example_file []) calibration_names = []"
    by (simp add: check_calibration_points_def example_file_def calibration_features_def
        calibration_names_def)
  have len: "length calibration_features = 3"
    by (simp add: calibration_features_def)
  have q: "clean_after_calibration literal_eval unsimplified (example_file [])
      = ([(LoggerInfo, PointsRemoved), (StSuccess, QCComplete)], Inr ())"
    by (simp add: clean_after_calibration_def example_file_def calibration_features_def run_simps)
  have "load_and_QC_geojson_file literal_eval every_geometry_intersects unsimplified
     (example_file []) calibration_names
   = ([(LoggerInfo, GeojsonLoaded 3),
       (LoggerInfo, GeometriesInDataFrame), (StWrite, GeometriesInDataFrame),
       (LoggerInfo, PercentWithinTriangle NaN), (StWrite, PercentWithinTriangle NaN),
       (LoggerInfo, PointsRemoved),
       (StSuccess, QCComplete)], Inr ())"
    by (simp add: load_and_QC_geojson_file_def run_simps Let_def example_calib_np_array c f r q len)
  with n f r show ?thesis by simp
qed

text \<open>
  Claim C2, amended. When the file has at least one polygon or line string, the
  intersect fraction is the number of polygons and line strings that intersect the
  calibration triangle divided by the number of polygons and line strings (points and
  all other geometries count in neither), and it lies between 0 and 1. When the file
  has none, the division is not avoided: the divisor is 0 and the quotient of numpy is
  nan, which raises nothing and for which the test against 0.25 is false. In both cases
  this fraction is the one that the run writes once the calibration points are found.
\<close>

theorem intersect_fraction_value:
  "(num_of_polygons_and_LineString df \<noteq> 0 \<longrightarrow>
      intersect_fraction isect df triangle
        = Finite (real (length (filter (\<lambda>f. geom_type (geometry f) \<in> set [''Polygon'', ''LineString'']
                                             \<and> isect (geometry f) triangle) df))
                  / real (length (filter (\<lambda>f. geom_type (geometry f)
                                               \<in> set [''Polygon'', ''LineString'']) df)))
      \<and> in_unit_interval (intersect_fraction isect df triangle))
   \<and> (num_of_polygons_and_LineString df = 0 \<longrightarrow>
        intersect_fraction isect df triangle = NaN
        \<and> \<not> np_less (intersect_fraction isect df triangle) 0.25)
   \<and> (name_column gdf \<and> calib_np_array gdf list_of_calibpoint_names = Inr triangle \<longrightarrow>
        (StWrite, PercentWithinTriangle (intersect_fraction isect (rows gdf) triangle))
          \<in> set (fst (load_and_QC_geojson_file le isect simplify gdf list_of_calibpoint_names)))"
proof (intro conjI impI)
  assume nz: "num_of_polygons_and_LineString df \<noteq> 0"
  show "intersect_fraction isect df triangle
        = Finite (real (length (filter (\<lambda>f. geom_type (geometry f) \<in> set [''Polygon'', ''LineString'']
                                             \<and> isect (geometry f) triangle) df))
                  / real (length (filter (\<lambda>f. geom_type (geometry f)
                                               \<in> set [''Polygon'', ''LineString'']) df)))"
    using nz
    by (simp add: intersect_fraction_def np_true_divide_def intersects_count
        num_of_polygons_and_LineString_def)
  have "real (length (filter (\<lambda>b. b) (intersects_column isect df triangle)))
      \<le> real (num_of_polygons_and_LineString df)"
    using intersects_count_le [of isect df triangle] by simp
  then show "in_unit_interval (intersect_fraction isect df triangle)"
    using nz by (simp add: intersect_fraction_def np_true_divide_def divide_le_eq)
next
  assume z: "num_of_polygons_and_LineString df = 0"
  then have "intersect_fraction isect df triangle = NaN"
    by (simp add: intersect_fraction_def np_true_divide_def intersects_count_zero)
  then show "intersect_fraction isect df triangle = NaN"
    and "\<not> np_less (intersect_fraction isect df triangle) 0.25"
    by simp_all
next
  assume "name_column gdf \<and> calib_np_array gdf list_of_calibpoint_names = Inr triangle"
  then show "(StWrite, PercentWithinTriangle (intersect_fraction isect (rows gdf) triangle))
          \<in> set (fst (load_and_QC_geojson_file le isect simplify gdf list_of_calibpoint_names))"
    by (simp add: load_and_QC_geojson_file_fraction)
qed

theorem intersect_fraction_value_witness:
  "intersect_fraction every_geometry_intersects
     (rows (example_file [square ''tumor'', square ''stroma''])) [(0, 0), (100, 0), (0, 100)]
     = Finite 1
   \<and> in_unit_interval (Finite 1)
   \<and> intersect_fraction every_geometry_intersects (rows (example_file []))
       [(0, 0), (100, 0), (0, 100)] = NaN
   \<and> (StWrite, PercentWithinTriangle (Finite 1))
       \<in> set (fst (load_and_QC_geojson_file literal_eval every_geometry_intersects unsimplified
                      (example_file [square ''tumor'', square ''stroma'']) calibration_names))"
proof -
  let ?df = "rows (example_file [square ''tumor'', square ''stroma''])"
  let ?t = "[(0, 0), (100, 0), (0, 100)] :: coords"
  have n2: "num_of_polygons_and_LineString ?df \<noteq> 0"
    by (simp add: num_of_polygons_and_LineString_def example_file_def calibration_features_def
        square_def)
  have n0: "num_of_polygons_and_LineString (rows (example_file [])) = 0"
    by (simp add: num_of_polygons_and_LineString_def example_file_def calibration_features_def)
  have cal: "name_column (example_file [square ''tumor'', square ''stroma''])
      \<and> calib_np_array (example_file [square ''tumor'', square ''stroma'']) calibration_names
          = Inr ?t"
    by (simp add: example_calib_np_array) (simp add: example_file_def)
  note thm2 = intersect_fraction_value
    [of ?df every_geometry_intersects ?t "example_file [square ''tumor'', square ''stroma'']"
        calibration_names literal_eval unsimplified]
  note thm0 = intersect_fraction_value
    [of "rows (example_file [])" every_geometry_intersects ?t
        "example_file [square ''tumor'', square ''stroma'']"
        calibration_names literal_eval unsimplified]
  from thm2 n2 have v: "intersect_fraction every_geometry_intersects ?df ?t
        = Finite (real (length (filter (\<lambda>f. geom_type (geometry f) \<in> set [''Polygon'', ''LineString'']
                                             \<and> every_geometry_intersects (geometry f) ?t) ?df))
                  / real (length (filter (\<lambda>f. geom_type (geometry f)
                                               \<in> set [''Polygon'', ''LineString'']) ?df)))"
    and u: "in_unit_interval (intersect_fraction every_geometry_intersects ?df ?t)"
    by blast+
  have one: "intersect_fraction every_geometry_intersects ?df ?t = Finite 1"
    unfolding v
    by (simp add: example_file_def calibration_features_def square_def
        every_geometry_intersects_def)
  from thm0 n0 have nan: "intersect_fraction every_geometry_intersects (rows (example_file [])) ?t = NaN"
    by blast
  from thm2 cal have w: "(StWrite, PercentWithinTriangle (intersect_fraction every_geometry_intersects ?df ?t))
          \<in> set (fst (load_and_QC_geojson_file literal_eval every_geometry_intersects unsimplified
                (example_file [square ''tumor'', square ''stroma'']) calibration_names))"
    by blast
  from one u nan w show ?thesis by simp
qed

section \<open>Properties of the cleaning steps\<close>

lemma apply_rows_Inr_elem:
  "apply_rows f xs = Inr ys \<Longrightarrow> y \<in> set ys \<Longrightarrow> \<exists>x \<in> set xs. f x = Inr y"
  by (induction xs arbitrary: ys) (auto split: sum.splits)

lemma apply_rows_fixed:
  "\<forall>x \<in> set xs. f x = Inr x \<Longrightarrow> apply_rows f xs = Inr xs"
  by (induction xs) auto

text \<open>
  A row is kept by the three filters when it is no point, has a classification and is
  no multipolygon; the order of the filters does not matter.
\<close>

lemma QC_steps_filter:
  "QC_steps le df =
     (if \<not> classification_column df then Inl KeyError
      else case apply_rows
                  (\<lambda>f. case derive_name le (classification f) of
                          Inl e \<Rightarrow> Inl e
                        | Inr v \<Rightarrow> Inr (with_classification_name f v))
                  (filter (\<lambda>f. \<not> is_point (geometry f) \<and> notna (classification f)
                                \<and> geom_type (geometry f) \<noteq> ''MultiPolygon'') (rows df)) of
             Inl e \<Rightarrow> Inl e
           | Inr cleaned \<Rightarrow>
               Inr \<lparr>name_column = name_column df, classification_column = True,
                    rows = cleaned\<rparr>)"
proof -
  have "filter (\<lambda>f. geom_type (geometry f) \<noteq> ''MultiPolygon'')
          (filter (\<lambda>f. notna (classification f)) (filter (\<lambda>f. \<not> is_point (geometry f)) xs))
      = filter (\<lambda>f. \<not> is_point (geometry f) \<and> notna (classification f)
                     \<and> geom_type (geometry f) \<noteq> ''MultiPolygon'') xs" for xs :: "'a feature_scheme list"
    by (induction xs) auto
  then show ?thesis by (simp add: QC_steps_def Let_def)
qed

lemma cleaned_frame:
  assumes "QC_steps le df = Inr cleaned"
  shows "classification_column df"
    and "cleaned = \<lparr>name_column = name_column df, classification_column = True,
                      rows = rows cleaned\<rparr>"
    and "apply_rows
           (\<lambda>f. case derive_name le (classification f) of
                   Inl e \<Rightarrow> Inl e
                 | Inr v \<Rightarrow> Inr (with_classification_name f v))
           (filter (\<lambda>f. \<not> is_point (geometry f) \<and> notna (classification f)
                         \<and> geom_type (geometry f) \<noteq> ''MultiPolygon'') (rows df))
         = Inr (rows cleaned)"
  using assms unfolding QC_steps_filter by (auto split: if_splits sum.splits)

lemma cleaned_rows:
  assumes "QC_steps le df = Inr cleaned" "s \<in> set (rows cleaned)"
  shows "\<not> is_point (geometry s) \<and> notna (classification s)
      \<and> geom_type (geometry s) \<noteq> ''MultiPolygon''
      \<and> derive_name le (classification s) = Inr (classification_name s)"
proof -
  let ?kept = "filter (\<lambda>f. \<not> is_point (geometry f) \<and> notna (classification f)
                     \<and> geom_type (geometry f) \<noteq> ''MultiPolygon'') (rows df)"
  let ?g = "\<lambda>f. case derive_name le (classification f) of
               Inl e \<Rightarrow> Inl e
             | Inr v \<Rightarrow> Inr (with_classification_name f v)"
  from assms(1) have "apply_rows ?g ?kept = Inr (rows cleaned)"
    by (rule cleaned_frame(3))
  then have "\<exists>f \<in> set ?kept. ?g f = Inr s"
    using assms(2) by (rule apply_rows_Inr_elem)
  then obtain f where f: "f \<in> set ?kept" and s: "?g f = Inr s" ..
  from s obtain v where v: "derive_name le (classification f) = Inr v"
    and sv: "s = with_classification_name f v"
    by (auto split: sum.splits)
  from f v show ?thesis by (simp add: sv with_classification_name_def)
qed

text \<open>
  Claim C7. When the cleaning steps of \<^verbatim>\<open>QC_geojson_file\<close> succeed on a feature set,
  applying them to their own output drops no feature (the three filters keep every row
  of it) and yields the same feature set, whatever \<^verbatim>\<open>ast.literal_eval\<close> does on the
  classifications that are strings.
\<close>

theorem QC_steps_idempotent:
  "QC_steps le df = Inr cleaned \<longrightarrow>
     QC_steps le cleaned = Inr cleaned
     \<and> filter (\<lambda>f. \<not> is_point (geometry f)) (rows cleaned) = rows cleaned
     \<and> filter (\<lambda>f. notna (classification f)) (rows cleaned) = rows cleaned
     \<and> filter (\<lambda>f. geom_type (geometry f) \<noteq> ''MultiPolygon'') (rows cleaned) = rows cleaned"
proof (intro impI)
  assume c: "QC_steps le df = Inr cleaned"
  have kept: "filter (\<lambda>f. \<not> is_point (geometry f) \<and> notna (classification f)
                     \<and> geom_type (geometry f) \<noteq> ''MultiPolygon'') (rows cleaned) = rows cleaned"
    using cleaned_rows [OF c] by (simp add: filter_id_conv)
  have "\<forall>s \<in> set (rows cleaned).
      (case derive_name le (classification s) of
         Inl e \<Rightarrow> Inl e
       | Inr v \<Rightarrow> Inr (with_classification_name s v)) = Inr s"
    using cleaned_rows [OF c] by (simp add: with_classification_name_def)
  then have rows_again: "apply_rows
       (\<lambda>f. case derive_name le (classification f) of
               Inl e \<Rightarrow> Inl e
             | Inr v \<Rightarrow> Inr (with_classification_name f v)) (rows cleaned) = Inr (rows cleaned)"
    by (rule apply_rows_fixed)
  from cleaned_frame(2) [OF c]
  have columns: "classification_column cleaned" "name_column cleaned = name_column df"
    by (cases cleaned, simp)+
  have "QC_steps le cleaned
      = Inr \<lparr>name_column = name_column df, classification_column = True, rows = rows cleaned\<rparr>"
    unfolding QC_steps_filter kept rows_again using columns by simp
  with cleaned_frame(2) [OF c] have again: "QC_steps le cleaned = Inr cleaned"
    by simp
  have each: "filter (\<lambda>f. \<not> is_point (geometry f)) (rows cleaned) = rows cleaned"
      "filter (\<lambda>f. notna (classification f)) (rows cleaned) = rows cleaned"
      "filter (\<lambda>f. geom_type (geometry f) \<noteq> ''MultiPolygon'') (rows cleaned) = rows cleaned"
    using cleaned_rows [OF c] by (simp_all add: filter_id_conv)
  from again each
  show "QC_steps le cleaned = Inr cleaned
     \<and> filter (\<lambda>f. \<not> is_point (geometry f)) (rows cleaned) = rows cleaned
     \<and> filter (\<lambda>f. notna (classification f)) (rows cleaned) = rows cleaned
     \<and> filter (\<lambda>f. geom_type (geometry f) \<noteq> ''MultiPolygon'') (rows cleaned) = rows cleaned"
    by (intro conjI)
qed

lemma literal_eval_stroma:
  \<open>literal_eval ''{"name":"stroma"}'' = Inr (PyDict [(''name'', PyStr ''stroma'')])\<close>
  by (simp add: literal_eval_def printable_def)

lemma QC_steps_uncleaned: "QC_steps literal_eval uncleaned_file = Inr cleaned_file"
  by (simp add: QC_steps_def uncleaned_file_def cleaned_file_def uncleaned_features_def
      cleaned_features_def calibration_features_def
      square_def notna_def with_classification_name_def literal_eval_stroma dict_get_def)

theorem QC_steps_idempotent_witness:
  "QC_steps literal_eval uncleaned_file = Inr cleaned_file
   \<and> length (rows uncleaned_file) = 7 \<and> length (rows cleaned_file) = 2
   \<and> QC_steps literal_eval cleaned_file = Inr cleaned_file
   \<and> filter (\<lambda>f. \<not> is_point (geometry f)) (rows cleaned_file) = rows cleaned_file"
proof -
  have "length (rows uncleaned_file) = 7" "length (rows cleaned_file) = 2"
    by (simp_all add: uncleaned_file_def cleaned_file_def uncleaned_features_def
        cleaned_features_def calibration_features_def)
  with QC_steps_idempotent [of literal_eval uncleaned_file cleaned_file, THEN mp,
      OF QC_steps_uncleaned] QC_steps_uncleaned
  show ?thesis by simp
qed

section \<open>Properties of the check of the samples and wells\<close>

lemma acceptable_rows: "take (14 - 2) (drop 2 ascii_uppercase) = ''CDEFGHIJKLMN''"
  by (simp add: ascii_uppercase_def)

lemma length_concat_grid:
  "length (concat (map (\<lambda>row. map (f row) cols) rws)) = length rws * length cols"
  by (induction rws) simp_all

lemma set_concat_grid:
  "set (concat (map (\<lambda>row. map (f row) cols) rws)) = (\<lambda>(row, column). f row column) ` (set rws \<times> set cols)"
  by (induction rws) auto

lemma length_create_list_of_acceptable_wells: "length create_list_of_acceptable_wells = 228"
  unfolding create_list_of_acceptable_wells_def acceptable_rows length_concat_grid
  by simp

lemma set_create_list_of_acceptable_wells:
  "set create_list_of_acceptable_wells
     = (\<lambda>(row, column). row # str_nat column) ` (set ''CDEFGHIJKLMN'' \<times> {3 .. 21})"
proof -
  have "set [3 ..< 22] = {3 .. 21 :: nat}"
    unfolding set_upt by auto
  moreover have "set create_list_of_acceptable_wells
      = (\<lambda>(row, column). [row] @ str_nat column) ` (set ''CDEFGHIJKLMN'' \<times> set [3 ..< 22])"
    unfolding create_list_of_acceptable_wells_def acceptable_rows by (rule set_concat_grid)
  ultimately show ?thesis by simp
qed

text \<open>
  The loop over the wells, from any value of the counter: it writes a warning for the
  unacceptable wells that bring the counter to at most 9, and the counter ends as its
  start plus the number of unacceptable wells.
\<close>

lemma check_wells_from:
  "check_wells acceptable n wells
     = (map (\<lambda>w. (StWrite, WellNotAcceptable w))
          (take (9 - n) (filter (\<lambda>w. w \<notin> PyStr ` set acceptable) wells)),
        n + length (filter (\<lambda>w. w \<notin> PyStr ` set acceptable) wells))"
proof (induction wells arbitrary: n)
  case Nil
  then show ?case by simp
next
  case (Cons well wells)
  show ?case
  proof (cases "well \<in> PyStr ` set acceptable")
    case True
    then show ?thesis by (simp add: Cons.IH)
  next
    case False
    have "take (9 - n) (well # xs) = (if n + 1 < 10 then well # take (9 - (n + 1)) xs else [])"
      for xs :: "pyval list"
    proof (cases "n < 9")
      case True
      then have "9 - n = Suc (9 - (n + 1))" by simp
      then have "take (9 - n) (well # xs) = well # take (9 - (n + 1)) xs"
        by (simp only: take_Suc_Cons)
      with True show ?thesis by simp
    next
      case False
      then show ?thesis by simp
    qed
    with False show ?thesis by (simp add: Cons.IH)
  qed
qed

lemma load_and_QC_SamplesandWells_run:
  assumes "annotation_names le df list_of_calibpoint_names = Inr Names"
    and "le (samples_and_wells_processed samples_and_wells_input) = Inr (PyDict d)"
    and "unique Names = Inr names"
  shows "load_and_QC_SamplesandWells le df list_of_calibpoint_names samples_and_wells_input
     = ([(LoggerDebug, CheckingWells)]
        @ map (\<lambda>w. (StWrite, WellNotAcceptable w))
            (take 9 (filter (\<lambda>w. w \<notin> PyStr ` set create_list_of_acceptable_wells) (dict_values d)))
        @ (if 10 \<le> length (filter (\<lambda>w. w \<notin> PyStr ` set create_list_of_acceptable_wells)
                              (dict_values d))
           then [(StWrite, TenWarnings)] else [])
        @ [(LoggerDebug, CheckingNames)]
        @ concat (map (\<lambda>name. if name \<notin> PyStr ` set (dict_keys d)
                               then [(StWrite, NameNotInSamplesAndWells name)] else []) names)
        @ [(StSuccess, SamplesAndWellsQCDone)], Inr ())"
  using assms
  by (simp add: load_and_QC_SamplesandWells_def run_simps check_wells_from)

text \<open>
  Claim C4, as stated, fails: with ten unacceptable wells in the mapping, the wells A1
  to A10, the run writes nine warnings, for A1 to A9, and then the summary. The tenth
  unacceptable well, A10, gets no warning of its own.
\<close>

theorem load_and_QC_SamplesandWells_tenth_well:
  "load_and_QC_SamplesandWells literal_eval (example_file []) calibration_names ten_wells_of_row_A
   = ([(LoggerDebug, CheckingWells)]
      @ map (\<lambda>w. (StWrite, WellNotAcceptable (PyStr w)))
          [''A1'', ''A2'', ''A3'', ''A4'', ''A5'', ''A6'', ''A7'', ''A8'', ''A9'']
      @ [(StWrite, TenWarnings), (LoggerDebug, CheckingNames), (StSuccess, SamplesAndWellsQCDone)],
      Inr ())"
  by code_simp

text \<open>
  Claim C4, amended. The acceptable wells are the 228 wells of the rows C to N and the
  columns 3 to 21. When the names of the annotations are derived from the file (it
  has the name and the classification column, and every classification has a name to
  give) and the text of the mapping parses to a dictionary, the run writes one
  warning for each of the first nine wells of the mapping that are not acceptable, in
  their order, and none for a later one; when ten or more wells are not acceptable it
  then writes the summary warning once. It goes on with the check of the names and ends
  without exception. The mapping \<^verbatim>\<open>{"a":"C3","b":"ZZ99"}\<close> gives exactly one warning, for
  \<^verbatim>\<open>ZZ99\<close>.
\<close>

theorem load_and_QC_SamplesandWells_warnings:
  \<open>length create_list_of_acceptable_wells = 228
   \<and> set create_list_of_acceptable_wells
       = (\<lambda>(row, column). row # str_nat column) ` (set ''CDEFGHIJKLMN'' \<times> {3 .. 21})
   \<and> (annotation_names le df list_of_calibpoint_names = Inr Names
        \<and> le (samples_and_wells_processed samples_and_wells_input) = Inr (PyDict d)
        \<and> unique Names = Inr names
      \<longrightarrow> load_and_QC_SamplesandWells le df list_of_calibpoint_names samples_and_wells_input
          = ([(LoggerDebug, CheckingWells)]
             @ map (\<lambda>w. (StWrite, WellNotAcceptable w))
                 (take 9 (filter (\<lambda>w. w \<notin> PyStr ` set create_list_of_acceptable_wells)
                            (dict_values d)))
             @ (if 10 \<le> length (filter (\<lambda>w. w \<notin> PyStr ` set create_list_of_acceptable_wells)
                                   (dict_values d))
                then [(StWrite, TenWarnings)] else [])
             @ [(LoggerDebug, CheckingNames)]
             @ concat (map (\<lambda>name. if name \<notin> PyStr ` set (dict_keys d)
                                    then [(StWrite, NameNotInSamplesAndWells name)] else []) names)
             @ [(StSuccess, SamplesAndWellsQCDone)], Inr ()))
   \<and> load_and_QC_SamplesandWells literal_eval (example_file [square ''a'', square ''b''])
        calibration_names ''{"a":"C3","b":"ZZ99"}''
      = ([(LoggerDebug, CheckingWells), (StWrite, WellNotAcceptable (PyStr ''ZZ99'')),
          (LoggerDebug, CheckingNames), (StSuccess, SamplesAndWellsQCDone)], Inr ())\<close>
proof (intro conjI impI)
  show "length create_list_of_acceptable_wells = 228"
    by (rule length_create_list_of_acceptable_wells)
  show "set create_list_of_acceptable_wells
       = (\<lambda>(row, column). row # str_nat column) ` (set ''CDEFGHIJKLMN'' \<times> {3 .. 21})"
    by (rule set_create_list_of_acceptable_wells)
  show \<open>load_and_QC_SamplesandWells literal_eval (example_file [square ''a'', square ''b''])
        calibration_names ''{"a":"C3","b":"ZZ99"}''
      = ([(LoggerDebug, CheckingWells), (StWrite, WellNotAcceptable (PyStr ''ZZ99'')),
          (LoggerDebug, CheckingNames), (StSuccess, SamplesAndWellsQCDone)], Inr ())\<close>
    by code_simp
next
  assume "annotation_names le df list_of_calibpoint_names = Inr Names
        \<and> le (samples_and_wells_processed samples_and_wells_input) = Inr (PyDict d)
        \<and> unique Names = Inr names"
  then show "load_and_QC_SamplesandWells le df list_of_calibpoint_names samples_and_wells_input
          = ([(LoggerDebug, CheckingWells)]
             @ map (\<lambda>w. (StWrite, WellNotAcceptable w))
                 (take 9 (filter (\<lambda>w. w \<notin> PyStr ` set create_list_of_acceptable_wells)
                            (dict_values d)))
             @ (if 10 \<le> length (filter (\<lambda>w. w \<notin> PyStr ` set create_list_of_acceptable_wells)
                                   (dict_values d))
                then [(StWrite, TenWarnings)] else [])
             @ [(LoggerDebug, CheckingNames)]
             @ concat (map (\<lambda>name. if name \<notin> PyStr ` set (dict_keys d)
                                    then [(StWrite, NameNotInSamplesAndWells name)] else []) names)
             @ [(StSuccess, SamplesAndWellsQCDone)], Inr ())"
    by (simp add: load_and_QC_SamplesandWells_run)
qed

theorem load_and_QC_SamplesandWells_warnings_witness:
  "annotation_names literal_eval (example_file [square ''a'']) calibration_names
       = Inr [PyStr ''a'']
   \<and> literal_eval (samples_and_wells_processed ten_wells_of_row_A)
       = Inr (PyDict (map (\<lambda>n. (CHR ''s'' # str_nat n, PyStr (CHR ''A'' # str_nat n))) [1 ..< 11]))
   \<and> unique [PyStr ''a''] = Inr [PyStr ''a'']
   \<and> load_and_QC_SamplesandWells literal_eval (example_file [square ''a'']) calibration_names
        ten_wells_of_row_A
      = ([(LoggerDebug, CheckingWells)]
         @ map (\<lambda>n. (StWrite, WellNotAcceptable (PyStr (CHR ''A'' # str_nat n)))) [1 ..< 10]
         @ [(StWrite, TenWarnings), (LoggerDebug, CheckingNames),
            (StWrite, NameNotInSamplesAndWells (PyStr ''a'')),
            (StSuccess, SamplesAndWellsQCDone)], Inr ())"
proof -
  let ?d = "map (\<lambda>n. (CHR ''s'' # str_nat n, PyStr (CHR ''A'' # str_nat n))) [1 ..< 11]"
  have h2: "annotation_names literal_eval (example_file [square ''a'']) calibration_names
       = Inr [PyStr ''a'']"
    by code_simp
  have h3: "literal_eval (samples_and_wells_processed ten_wells_of_row_A) = Inr (PyDict ?d)"
    by code_simp
  have h4: "unique [PyStr ''a''] = Inr [PyStr ''a'']"
    by code_simp
  have bad: "filter (\<lambda>w. w \<notin> PyStr ` set create_list_of_acceptable_wells) (dict_values ?d)
      = map (\<lambda>n. PyStr (CHR ''A'' # str_nat n)) [1 ..< 11]"
    by code_simp
  have nine: "take 9 (map (\<lambda>n. PyStr (CHR ''A'' # str_nat n)) [1 ..< 11])
      = map (\<lambda>n. PyStr (CHR ''A'' # str_nat n)) [1 ..< 10]"
    by code_simp
  have key: "PyStr ''a'' \<notin> PyStr ` set (dict_keys ?d)"
    by code_simp
  from load_and_QC_SamplesandWells_warnings
    [of literal_eval "example_file [square ''a'']" calibration_names "[PyStr ''a'']"
        ten_wells_of_row_A ?d "[PyStr ''a'']"]
  have "load_and_QC_SamplesandWells literal_eval (example_file [square ''a'']) calibration_names
        ten_wells_of_row_A
      = ([(LoggerDebug, CheckingWells)]
             @ map (\<lambda>w. (StWrite, WellNotAcceptable w))
                 (take 9 (filter (\<lambda>w. w \<notin> PyStr ` set create_list_of_acceptable_wells)
                            (dict_values ?d)))
             @ (if 10 \<le> length (filter (\<lambda>w. w \<notin> PyStr ` set create_list_of_acceptable_wells)
                                   (dict_values ?d))
                then [(StWrite, TenWarnings)] else [])
             @ [(LoggerDebug, CheckingNames)]
             @ concat (map (\<lambda>name. if name \<notin> PyStr ` set (dict_keys ?d)
                                    then [(StWrite, NameNotInSamplesAndWells name)] else [])
                 [PyStr ''a''])
             @ [(StSuccess, SamplesAndWellsQCDone)], Inr ())"
    using h2 h3 h4 by blast
  then have "load_and_QC_SamplesandWells literal_eval (example_file [square ''a'']) calibration_names
        ten_wells_of_row_A
      = ([(LoggerDebug, CheckingWells)]
         @ map (\<lambda>n. (StWrite, WellNotAcceptable (PyStr (CHR ''A'' # str_nat n)))) [1 ..< 10]
         @ [(StWrite, TenWarnings), (LoggerDebug, CheckingNames),
            (StWrite, NameNotInSamplesAndWells (PyStr ''a'')),
            (StSuccess, SamplesAndWellsQCDone)], Inr ())"
    unfolding bad nine using key by (simp add: comp_def)
  with h2 h3 h4 show ?thesis by (intro conjI)
qed

section \<open>Properties of the text of the mapping\<close>

lemma dict_set_entries:
  "(k, v) \<in> set (dict_set d k' v') \<Longrightarrow> (k, v) = (k', v') \<or> (k, v) \<in> set d"
  by (induction d) (auto split: if_splits)

lemma lex_chars:
  "lex st toks cs = Some out \<Longrightarrow> CHR 0x5C \<notin> set cs \<Longrightarrow> TString s \<in> set out \<Longrightarrow> x \<in> set s
     \<Longrightarrow> x \<in> set cs \<or> (\<exists>s'. TString s' \<in> set toks \<and> x \<in> set s')
         \<or> (\<exists>q acc. st = Inside q acc \<and> x \<in> set acc)"
proof (induction st toks cs rule: lex.induct)
  case (1 toks)
  then show ?case by auto
next
  case (2 q acc toks)
  then show ?case by simp
next
  case (3 toks c cs)
  then show ?case by (auto split: if_splits)
next
  case (4 q acc toks c cs)
  from "4.prems"(2) have nb: "c \<noteq> CHR 0x5C" and rest: "CHR 0x5C \<notin> set cs" by auto
  show ?case
  proof (cases "c = q")
    case True
    with "4.prems"(1) have "lex Outside (TString (rev acc) # toks) cs = Some out" by simp
    from "4.IH"(1) [OF True this rest "4.prems"(3,4)] show ?thesis by auto
  next
    case False
    with "4.prems"(1) nb have p: "printable c" and l: "lex (Inside q (c # acc)) toks cs = Some out"
      by (auto split: if_splits)
    from "4.IH"(4) [OF False nb p l rest "4.prems"(3,4)] show ?thesis by auto
  qed
qed

lemma parse_items_entries:
  "parse_items d toks = Some d' \<Longrightarrow> (k, v) \<in> set d'
     \<Longrightarrow> (k, v) \<in> set d \<or> (TString k \<in> set toks \<and> (\<exists>s. v = PyStr s \<and> TString s \<in> set toks))"
proof (induction d toks rule: parse_items.induct)
  case (1 d)
  then show ?case by simp
next
  case (2 d k' v')
  then show ?case by (auto dest: dict_set_entries)
next
  case (3 d k' v' rest)
  then show ?case by (auto dest!: dict_set_entries)
qed simp_all

lemma literal_eval_chars:
  assumes "literal_eval text = Inr (PyDict d)" "CHR 0x5C \<notin> set text" "(k, v) \<in> set d"
  shows "set k \<subseteq> set text \<and> (\<exists>s. v = PyStr s \<and> set s \<subseteq> set text)"
proof -
  from assms(1) obtain toks where l: "lex Outside [] text = Some (LBrace # toks)"
    and p: "parse_items [] toks = Some d"
    by (auto simp: literal_eval_def split: option.splits list.splits token.splits)
  have str: "set s \<subseteq> set text" if "TString s \<in> set toks" for s
  proof
    fix x assume "x \<in> set s"
    with lex_chars [OF l assms(2), of s x] that show "x \<in> set text" by auto
  qed
  from parse_items_entries [OF p assms(3)]
  have "TString k \<in> set toks \<and> (\<exists>s. v = PyStr s \<and> TString s \<in> set toks)" by simp
  with str show ?thesis by blast
qed

lemma set_samples_and_wells_processed:
  "set (samples_and_wells_processed text) = set text - {CHR '' '', CHR 0x0A}"
  by (auto simp: samples_and_wells_processed_def remove_char_def)

lemma samples_and_wells_processed_idem:
  "samples_and_wells_processed (samples_and_wells_processed text) = samples_and_wells_processed text"
  unfolding samples_and_wells_processed_def remove_char_def filter_filter
  by (rule filter_cong) auto

text \<open>
  Claim C9, as stated, fails in its last part: the key of the mapping \<^verbatim>\<open>{"a\x20b":"C3"}\<close>
  is written with an escape, the text has no space to delete, and the parsed key is
  \<^verbatim>\<open>a b\<close>. It equals the classification name \<^verbatim>\<open>a b\<close> of an annotation: the check of the
  names writes no warning for it, and \<^verbatim>\<open>create_collection\<close> exports its shape to the well
  C3.
\<close>

theorem escaped_space_reaches_key:
  "samples_and_wells_processed escaped_space_mapping = escaped_space_mapping
   \<and> literal_eval (samples_and_wells_processed escaped_space_mapping)
       = Inr (PyDict [(''a b'', PyStr ''C3'')])
   \<and> classification_name (with_classification_name (square ''a b'') (PyStr ''a b'')) = PyStr ''a b''
   \<and> load_and_QC_SamplesandWells literal_eval (example_file [square ''a b'']) calibration_names
        escaped_space_mapping
      = ([(LoggerDebug, CheckingWells), (LoggerDebug, CheckingNames),
          (StSuccess, SamplesAndWellsQCDone)], Inr ())
   \<and> map snd (shape_list (fst (projr (snd
        (create_collection literal_eval unsimplified (example_file [square ''a b''])
           calibration_names escaped_space_mapping)))))
      = [PyStr ''C3'']"
proof -
  have 1: "samples_and_wells_processed escaped_space_mapping = escaped_space_mapping"
    by code_simp
  have 2: "literal_eval (samples_and_wells_processed escaped_space_mapping)
       = Inr (PyDict [(''a b'', PyStr ''C3'')])"
    by code_simp
  have 3: "classification_name (with_classification_name (square ''a b'') (PyStr ''a b'')) = PyStr ''a b''"
    by (simp add: with_classification_name_def)
  have 4: "load_and_QC_SamplesandWells literal_eval (example_file [square ''a b'']) calibration_names
        escaped_space_mapping
      = ([(LoggerDebug, CheckingWells), (LoggerDebug, CheckingNames),
          (StSuccess, SamplesAndWellsQCDone)], Inr ())"
    by code_simp
  have 5: "map snd (shape_list (fst (projr (snd
        (create_collection literal_eval unsimplified (example_file [square ''a b''])
           calibration_names escaped_space_mapping)))))
      = [PyStr ''C3'']"
    by code_simp
  from 1 2 3 4 5 show ?thesis by (intro conjI)
qed

text \<open>
  Claim C9, amended. \<^verbatim>\<open>load_and_QC_SamplesandWells\<close> and \<^verbatim>\<open>create_collection\<close> delete every
  space and every newline from the whole text of the mapping before they parse it:
  the processed text is the text without these characters, and each function does on a
  text what it does on the processed text. For a text without backslash that parses to
  a dictionary of the fragment of \<open>literal_eval\<close>, no parsed key and no parsed value
  contains a space; so the parsed mapping differs from any mapping that has a space in a
  key or a value, and a classification name that contains a space equals no parsed key.
\<close>

theorem mapping_text_without_spaces:
  "samples_and_wells_processed text = filter (\<lambda>c. c \<noteq> CHR '' '' \<and> c \<noteq> CHR 0x0A) text
   \<and> load_and_QC_SamplesandWells le df list_of_calibpoint_names text
       = load_and_QC_SamplesandWells le df list_of_calibpoint_names (samples_and_wells_processed text)
   \<and> create_collection le simplify df list_of_calibpoint_names text
       = create_collection le simplify df list_of_calibpoint_names (samples_and_wells_processed text)
   \<and> (CHR 0x5C \<notin> set text \<and> literal_eval (samples_and_wells_processed text) = Inr (PyDict d)
       \<longrightarrow> (\<forall>k v. (k, v) \<in> set d \<longrightarrow> CHR '' '' \<notin> set k \<and> (\<exists>s. v = PyStr s \<and> CHR '' '' \<notin> set s))
         \<and> (\<forall>written. (\<exists>k v. (k, v) \<in> set written
                             \<and> (CHR '' '' \<in> set k \<or> (\<exists>s. v = PyStr s \<and> CHR '' '' \<in> set s)))
               \<longrightarrow> d \<noteq> written)
         \<and> (\<forall>name. CHR '' '' \<in> set name \<longrightarrow> PyStr name \<notin> PyStr ` set (dict_keys d)))"
proof (intro conjI impI)
  show "samples_and_wells_processed text = filter (\<lambda>c. c \<noteq> CHR '' '' \<and> c \<noteq> CHR 0x0A) text"
    by (simp add: samples_and_wells_processed_def remove_char_def conj_commute)
  show "load_and_QC_SamplesandWells le df list_of_calibpoint_names text
       = load_and_QC_SamplesandWells le df list_of_calibpoint_names (samples_and_wells_processed text)"
    by (simp add: load_and_QC_SamplesandWells_def samples_and_wells_processed_idem)
  show "create_collection le simplify df list_of_calibpoint_names text
       = create_collection le simplify df list_of_calibpoint_names (samples_and_wells_processed text)"
    by (simp add: create_collection_def samples_and_wells_processed_idem)
next
  assume a: "CHR 0x5C \<notin> set text \<and> literal_eval (samples_and_wells_processed text) = Inr (PyDict d)"
  let ?t = "samples_and_wells_processed text"
  from a have nb: "CHR 0x5C \<notin> set ?t" by (simp add: set_samples_and_wells_processed)
  have nosp: "CHR '' '' \<notin> set ?t" by (simp add: set_samples_and_wells_processed)
  have entries: "CHR '' '' \<notin> set k \<and> (\<exists>s. v = PyStr s \<and> CHR '' '' \<notin> set s)"
    if "(k, v) \<in> set d" for k v
  proof -
    from a have "literal_eval ?t = Inr (PyDict d)" by simp
    from literal_eval_chars [OF this nb that] nosp show ?thesis by auto
  qed
  then show "\<forall>k v. (k, v) \<in> set d \<longrightarrow> CHR '' '' \<notin> set k \<and> (\<exists>s. v = PyStr s \<and> CHR '' '' \<notin> set s)"
    by blast
  from entries
  show "\<forall>written. (\<exists>k v. (k, v) \<in> set written
                             \<and> (CHR '' '' \<in> set k \<or> (\<exists>s. v = PyStr s \<and> CHR '' '' \<in> set s)))
               \<longrightarrow> d \<noteq> written"
    by blast
  from entries
  show "\<forall>name. CHR '' '' \<in> set name \<longrightarrow> PyStr name \<notin> PyStr ` set (dict_keys d)"
    by (auto simp: dict_keys_def)
qed

theorem mapping_text_without_spaces_witness:
  \<open>CHR 0x5C \<notin> set spaced_mapping
   \<and> samples_and_wells_processed spaced_mapping = ''{"ab":"C3"}''
   \<and> literal_eval (samples_and_wells_processed spaced_mapping) = Inr (PyDict [(''ab'', PyStr ''C3'')])
   \<and> [(''ab'', PyStr ''C3'')] \<noteq> [(''a b'', PyStr ''C 3'')]
   \<and> PyStr ''a b'' \<notin> PyStr ` set (dict_keys [(''ab'', PyStr ''C3'')])
   \<and> load_and_QC_SamplesandWells literal_eval (example_file [square ''a b'']) calibration_names
        spaced_mapping
      = load_and_QC_SamplesandWells literal_eval (example_file [square ''a b'']) calibration_names
          ''{"ab":"C3"}''\<close>
proof -
  let ?d = "[(''ab'', PyStr ''C3'')]"
  have h1: "CHR 0x5C \<notin> set spaced_mapping" by code_simp
  have h2: \<open>samples_and_wells_processed spaced_mapping = ''{"ab":"C3"}''\<close> by code_simp
  have h3: "literal_eval (samples_and_wells_processed spaced_mapping) = Inr (PyDict ?d)"
    by code_simp
  note t = mapping_text_without_spaces
    [of spaced_mapping literal_eval "example_file [square ''a b'']" calibration_names unsimplified ?d]
  from t have same: "load_and_QC_SamplesandWells literal_eval (example_file [square ''a b''])
        calibration_names spaced_mapping
      = load_and_QC_SamplesandWells literal_eval (example_file [square ''a b'']) calibration_names
          (samples_and_wells_processed spaced_mapping)"
    by blast
  from t h1 h3 have differs: "\<forall>written. (\<exists>k v. (k, v) \<in> set written
                             \<and> (CHR '' '' \<in> set k \<or> (\<exists>s. v = PyStr s \<and> CHR '' '' \<in> set s)))
               \<longrightarrow> ?d \<noteq> written"
    and names: "\<forall>name. CHR '' '' \<in> set name \<longrightarrow> PyStr name \<notin> PyStr ` set (dict_keys ?d)"
    by blast+
  from differs have d: "?d \<noteq> [(''a b'', PyStr ''C 3'')]"
    by (rule allE [of _ "[(''a b'', PyStr ''C 3'')]"]) simp
  from names have n: "PyStr ''a b'' \<notin> PyStr ` set (dict_keys ?d)"
    by (rule allE [of _ "''a b''"]) simp
  from h1 h2 h3 d n same show ?thesis unfolding h2 by (intro conjI)
qed

section \<open>Labelling with metadata: the check of the names\<close>

lemma dict_get_dict_set:
  "dict_get (dict_set d k v) k' = (if k' = k then Some v else dict_get d k')"
  by (induction d) (auto simp: dict_get_def)

lemma dict_get_assign_pairs:
  "dict_get (assign_pairs d ps) k
     = (case map_of (rev ps) k of Some v \<Rightarrow> Some v | None \<Rightarrow> dict_get d k)"
proof (induction ps arbitrary: d)
  case Nil
  then show ?case by simp
next
  case (Cons p ps)
  obtain s w where p: "p = (s, w)" by (cases p)
  show ?case
    by (simp add: p Cons.IH dict_get_dict_set map_add_def split: option.splits)
qed

lemma dict_get_assign_pairs_key:
  assumes "k \<in> fst ` set ps"
  shows "\<exists>v. dict_get (assign_pairs [] ps) k = Some v \<and> (k, v) \<in> set ps"
proof -
  from assms have "k \<in> fst ` set (rev ps)" by simp
  then obtain v where v: "map_of (rev ps) k = Some v"
    by (metis map_of_eq_None_iff not_Some_eq)
  then have "(k, v) \<in> set (rev ps)" by (rule map_of_SomeD)
  with v show ?thesis by (simp add: dict_get_assign_pairs)
qed

lemma dict_get_zip_key:
  assumes "k \<in> set ks" "length vs = length ks"
  shows "\<exists>v. dict_get (assign_pairs [] (zip ks vs)) k = Some v \<and> v \<in> set vs"
proof -
  from assms have "k \<in> fst ` set (zip ks vs)"
    by (metis map_fst_zip set_map)
  from dict_get_assign_pairs_key [OF this]
  obtain v where "dict_get (assign_pairs [] (zip ks vs)) k = Some v" "(k, v) \<in> set (zip ks vs)"
    by blast
  then show ?thesis by (auto dest: set_zip_rightD)
qed

lemma apply_rows_total:
  "(\<And>x. x \<in> set xs \<Longrightarrow> \<exists>y. f x = Inr y \<and> g y = h x)
     \<Longrightarrow> \<exists>ys. apply_rows f xs = Inr ys \<and> map g ys = map h xs"
proof (induction xs)
  case Nil
  then show ?case by simp
next
  case (Cons x xs)
  from Cons.prems [of x] obtain y where y: "f x = Inr y" "g y = h x" by auto
  from Cons.IH Cons.prems obtain ys where ys: "apply_rows f xs = Inr ys" "map g ys = map h xs"
    by auto
  from y ys show ?case by simp
qed

lemma QC_geojson_file_run:
  "QC_geojson_file le df
     = ([(LoggerInfo, GeojsonLoaded (length (rows df))), (LoggerInfo, PointsRemoved)],
        QC_steps le df)"
  by (simp add: QC_geojson_file_def run_simps)

lemma check_ids_run:
  assumes "get_column metadata key = Inr col" "shape_names_set shapes = Inr names"
  shows "check_ids shapes metadata key
     = ([(LoggerDebug, RunningCheckIds), (LoggerDebug, MetadataNamesStripped),
         (LoggerDebug, MetadataShape (length (stripped_names col))),
         (LoggerDebug, FirstShapeNames), (LoggerDebug, FirstMetadataNames)]
        @ (if names \<subseteq> metadata_names_set col
           then [(LoggerInfo, AllShapeNamesFound), (StWrite, AllShapeNamesFound)]
           else [(LoggerError, NotFoundInMetadata (names - metadata_names_set col)),
                 (LoggerError, OverlappingNames (names \<inter> metadata_names_set col))]),
        Inr (names \<subseteq> metadata_names_set col,
             dict_set metadata key (TextColumn (map Some (stripped_names col)))))"
  using assms by (simp add: check_ids_def run_simps Let_def)

lemma process_geojson_with_metadata_run:
  assumes "QC_steps le df = Inr shapes" "get_column metadata key = Inr col"
    "shape_names_set (rows shapes) = Inr names"
  shows "process_geojson_with_metadata le df (Some metadata) key var
     = ([(LoggerInfo, GeojsonLoaded (length (rows df))), (LoggerInfo, PointsRemoved),
         (LoggerDebug, RunningCheckIds), (LoggerDebug, MetadataNamesStripped),
         (LoggerDebug, MetadataShape (length (stripped_names col))),
         (LoggerDebug, FirstShapeNames), (LoggerDebug, FirstMetadataNames)]
        @ (if names \<subseteq> metadata_names_set col
           then [(LoggerInfo, AllShapeNamesFound), (StWrite, AllShapeNamesFound)]
           else [(LoggerError, NotFoundInMetadata (names - metadata_names_set col)),
                 (LoggerError, OverlappingNames (names \<inter> metadata_names_set col))]),
        if names \<subseteq> metadata_names_set col
        then label_shapes (rows shapes)
               (dict_set metadata key (TextColumn (map Some (stripped_names col)))) key var
        else Inl AssertionError)"
  using assms
  by (simp add: process_geojson_with_metadata_def QC_geojson_file_run check_ids_run
      parse_metadata_csv_def run_simps)

lemma label_shapes_error: "label_shapes shapes metadata key var = Inl e \<Longrightarrow> e = KeyError"
proof -
  assume a: "label_shapes shapes metadata key var = Inl e"
  have nc: "new_classification cd x = Inl e' \<Longrightarrow> e' = KeyError" for cd x e'
    by (cases x) (auto split: option.splits)
  have gc: "get_column metadata k = Inl e' \<Longrightarrow> e' = KeyError" for k e'
    by (auto simp: get_column_def split: option.splits)
  show ?thesis
  proof (cases "get_column metadata key")
    case (Inl e1)
    with a gc show ?thesis by (simp add: label_shapes_def)
  next
    case names: (Inr ncol)
    show ?thesis
    proof (cases "get_column metadata var")
      case (Inl e2)
      with a names gc show ?thesis by (simp add: label_shapes_def)
    next
      case (Inr vcol)
      let ?f = "\<lambda>s :: shape. case new_classification (color_dict (categories vcol))
                 (map_name (assign_pairs [] (zip (astype_str ncol) (column_values vcol)))
                    (classification_name s)) of
            Inl e \<Rightarrow> Inl e
          | Inr c \<Rightarrow> Inr \<lparr>shape_geometry = geometry s, shape_name = classification_name s,
                          shape_classification = c\<rparr>"
      from a names Inr have "apply_rows ?f shapes = Inl e"
        by (simp add: label_shapes_def Let_def)
      then have "\<exists>s \<in> set shapes. ?f s = Inl e" by (rule apply_rows_Inl_range)
      then obtain s where s: "?f s = Inl e" by blast
      show ?thesis
      proof (cases "new_classification (color_dict (categories vcol))
                 (map_name (assign_pairs [] (zip (astype_str ncol) (column_values vcol)))
                    (classification_name s))")
        case (Inl e')
        with s have "e' = e" by simp
        with nc [OF Inl] show ?thesis by simp
      next
        case (Inr c)
        with s show ?thesis by simp
      qed
    qed
  qed
qed

lemma label_shapes_text:
  assumes sub: "set (map classification_name shapes) \<subseteq> PyStr ` set ks"
    and key: "get_column metadata key = Inr (TextColumn (map Some ks))"
    and var: "get_column metadata var = Inr (TextColumn values)"
    and present: "None \<notin> set values"
    and len: "length values = length ks"
  shows "\<exists>labelled. label_shapes shapes metadata key var = Inr labelled
           \<and> map shape_name labelled = map classification_name shapes"
proof -
  let ?mapping = "assign_pairs [] (zip ks (column_values (TextColumn values)))"
  let ?cats = "categories (TextColumn values)"
  let ?f = "\<lambda>s :: shape. case new_classification (color_dict ?cats)
                 (map_name ?mapping (classification_name s)) of
            Inl e \<Rightarrow> Inl e
          | Inr c \<Rightarrow> Inr \<lparr>shape_geometry = geometry s, shape_name = classification_name s,
                          shape_classification = c\<rparr>"
  have each: "\<exists>y. ?f s = Inr y \<and> shape_name y = classification_name s" if "s \<in> set shapes" for s
  proof -
    from that sub obtain n where n: "classification_name s = PyStr n" "n \<in> set ks" by auto
    from len have "length (column_values (TextColumn values)) = length ks" by simp
    from dict_get_zip_key [OF n(2) this]
    obtain v where v: "dict_get ?mapping n = Some v" "v \<in> set (column_values (TextColumn values))"
      by blast
    from v(2) present obtain t where t: "v = CsvText t" "Some t \<in> set values"
      by (auto split: option.splits)
    from t(2) have "t \<in> set ?cats" by force
    moreover have "length (map (\<lambda>i. default_colors ! (i mod length default_colors)) [0 ..< length ?cats])
        = length ?cats"
      by simp
    ultimately obtain c where "dict_get (color_dict ?cats) t = Some c"
      unfolding color_dict_def using dict_get_zip_key by blast
    with n v t show ?thesis by simp
  qed
  have "\<exists>ys. apply_rows ?f shapes = Inr ys \<and> map shape_name ys = map classification_name shapes"
    by (rule apply_rows_total) (use each in blast)
  then show ?thesis
    by (simp add: label_shapes_def key var Let_def comp_def)
qed

lemma get_column_dict_set:
  "get_column metadata key = Inr col
     \<Longrightarrow> get_column (dict_set metadata key col') k = (if k = key then Inr col' else get_column metadata k)"
  by (simp add: get_column_def dict_get_dict_set)

text \<open>
  What \<^verbatim>\<open>process_geojson_with_metadata\<close> does with the names. Let the cleaning steps
  return \<open>shapes\<close>, let the metadata have the name column \<open>col\<close>, and let \<open>names\<close> be the
  set of the classification names of the shapes. The function fails with AssertionError
  exactly when \<open>names\<close> is not a subset of the stripped values of \<open>col\<close>; it then has
  logged the set of the names that are not found and the set of the names that overlap.
  When the subset relation holds, it writes that all shape names are found and the
  outcome is that of the labelling, on the metadata whose name column is stripped. The
  labelling succeeds, every shape keeping its classification name as its name, when the
  variable column of that metadata is a column of text without missing value.
\<close>

lemma process_geojson_with_metadata_names:
  "QC_steps le df = Inr shapes \<and> get_column metadata key = Inr col
     \<and> shape_names_set (rows shapes) = Inr names \<longrightarrow>
   (snd (process_geojson_with_metadata le df (Some metadata) key var) = Inl AssertionError
      \<longleftrightarrow> \<not> names \<subseteq> metadata_names_set col)
   \<and> (\<not> names \<subseteq> metadata_names_set col \<longrightarrow>
        (LoggerError, NotFoundInMetadata (names - metadata_names_set col))
          \<in> set (fst (process_geojson_with_metadata le df (Some metadata) key var))
        \<and> (LoggerError, OverlappingNames (names \<inter> metadata_names_set col))
          \<in> set (fst (process_geojson_with_metadata le df (Some metadata) key var)))
   \<and> (names \<subseteq> metadata_names_set col \<longrightarrow>
        (StWrite, AllShapeNamesFound)
          \<in> set (fst (process_geojson_with_metadata le df (Some metadata) key var))
        \<and> snd (process_geojson_with_metadata le df (Some metadata) key var)
          = label_shapes (rows shapes)
              (dict_set metadata key (TextColumn (map Some (stripped_names col)))) key var)
   \<and> (names \<subseteq> metadata_names_set col
        \<and> get_column (dict_set metadata key (TextColumn (map Some (stripped_names col)))) var
            = Inr (TextColumn texts)
        \<and> None \<notin> set texts \<and> length texts = length (stripped_names col) \<longrightarrow>
        (\<exists>labelled. snd (process_geojson_with_metadata le df (Some metadata) key var) = Inr labelled
           \<and> map shape_name labelled = map classification_name (rows shapes)))"
proof (intro impI)
  assume a: "QC_steps le df = Inr shapes \<and> get_column metadata key = Inr col
     \<and> shape_names_set (rows shapes) = Inr names"
  let ?run = "process_geojson_with_metadata le df (Some metadata) key var"
  let ?md = "dict_set metadata key (TextColumn (map Some (stripped_names col)))"
  from a have run: "?run
     = ([(LoggerInfo, GeojsonLoaded (length (rows df))), (LoggerInfo, PointsRemoved),
         (LoggerDebug, RunningCheckIds), (LoggerDebug, MetadataNamesStripped),
         (LoggerDebug, MetadataShape (length (stripped_names col))),
         (LoggerDebug, FirstShapeNames), (LoggerDebug, FirstMetadataNames)]
        @ (if names \<subseteq> metadata_names_set col
           then [(LoggerInfo, AllShapeNamesFound), (StWrite, AllShapeNamesFound)]
           else [(LoggerError, NotFoundInMetadata (names - metadata_names_set col)),
                 (LoggerError, OverlappingNames (names \<inter> metadata_names_set col))]),
        if names \<subseteq> metadata_names_set col then label_shapes (rows shapes) ?md key var
        else Inl AssertionError)"
    by (simp add: process_geojson_with_metadata_run)
  have iff: "snd ?run = Inl AssertionError \<longleftrightarrow> \<not> names \<subseteq> metadata_names_set col"
    unfolding run using label_shapes_error [of "rows shapes" ?md key var AssertionError] by auto
  have fails: "(LoggerError, NotFoundInMetadata (names - metadata_names_set col)) \<in> set (fst ?run)
        \<and> (LoggerError, OverlappingNames (names \<inter> metadata_names_set col)) \<in> set (fst ?run)"
    if "\<not> names \<subseteq> metadata_names_set col"
    unfolding run using that by simp
  have passes: "(StWrite, AllShapeNamesFound) \<in> set (fst ?run)
        \<and> snd ?run = label_shapes (rows shapes) ?md key var"
    if "names \<subseteq> metadata_names_set col"
    unfolding run using that by simp
  have joins: "\<exists>labelled. snd ?run = Inr labelled
           \<and> map shape_name labelled = map classification_name (rows shapes)"
    if t: "names \<subseteq> metadata_names_set col
        \<and> get_column ?md var = Inr (TextColumn texts)
        \<and> None \<notin> set texts \<and> length texts = length (stripped_names col)"
  proof -
    from a have n: "names = set (map classification_name (rows shapes))"
      by (auto simp: shape_names_set_def split: if_splits)
    with t have sub: "set (map classification_name (rows shapes)) \<subseteq> PyStr ` set (stripped_names col)"
      by (simp add: metadata_names_set_def)
    from a have key: "get_column ?md key = Inr (TextColumn (map Some (stripped_names col)))"
      by (simp add: get_column_dict_set)
    from t have var: "get_column ?md var = Inr (TextColumn texts)" by simp
    from t have "None \<notin> set texts" "length texts = length (stripped_names col)" by simp_all
    from label_shapes_text [OF sub key var this] passes t show ?thesis by simp
  qed
  from iff fails passes joins
  show "(snd ?run = Inl AssertionError \<longleftrightarrow> \<not> names \<subseteq> metadata_names_set col)
   \<and> (\<not> names \<subseteq> metadata_names_set col \<longrightarrow>
        (LoggerError, NotFoundInMetadata (names - metadata_names_set col)) \<in> set (fst ?run)
        \<and> (LoggerError, OverlappingNames (names \<inter> metadata_names_set col)) \<in> set (fst ?run))
   \<and> (names \<subseteq> metadata_names_set col \<longrightarrow>
        (StWrite, AllShapeNamesFound) \<in> set (fst ?run)
        \<and> snd ?run = label_shapes (rows shapes) ?md key var)
   \<and> (names \<subseteq> metadata_names_set col
        \<and> get_column ?md var = Inr (TextColumn texts)
        \<and> None \<notin> set texts \<and> length texts = length (stripped_names col) \<longrightarrow>
        (\<exists>labelled. snd ?run = Inr labelled
           \<and> map shape_name labelled = map classification_name (rows shapes)))"
    by (intro conjI impI) blast+
qed

text \<open>
  The same file with three tables. With the status as text the join succeeds, also when
  the variable column is the name column itself; with a table that names \<^verbatim>\<open>tumor\<close> only
  the function fails and logs \<^verbatim>\<open>stroma\<close> as not found and \<^verbatim>\<open>tumor\<close> as overlapping.
\<close>

lemma process_geojson_with_metadata_names_examples:
  "map shape_name (projr (snd (process_geojson_with_metadata literal_eval uncleaned_file
            (Some status_as_text) ''Class name'' ''status'')))
       = [PyStr ''tumor'', PyStr ''stroma'']
   \<and> map shape_classification (projr (snd (process_geojson_with_metadata literal_eval
            uncleaned_file (Some status_as_text) ''Class name'' ''status'')))
       = [PyDict [(''name'', PyStr ''collected''),
                  (''color'', PyList [PyInt 31, PyInt 119, PyInt 180])],
          PyDict [(''name'', PyStr ''open''),
                  (''color'', PyList [PyInt 255, PyInt 127, PyInt 14])]]
   \<and> map shape_name (projr (snd (process_geojson_with_metadata literal_eval uncleaned_file
            (Some status_as_text) ''Class name'' ''Class name'')))
       = [PyStr ''tumor'', PyStr ''stroma'']
   \<and> process_geojson_with_metadata literal_eval uncleaned_file
        (Some tumor_only) ''Class name'' ''status''
      = ([(LoggerInfo, GeojsonLoaded 7), (LoggerInfo, PointsRemoved),
          (LoggerDebug, RunningCheckIds), (LoggerDebug, MetadataNamesStripped),
          (LoggerDebug, MetadataShape 1), (LoggerDebug, FirstShapeNames),
          (LoggerDebug, FirstMetadataNames),
          (LoggerError, NotFoundInMetadata {PyStr ''stroma''}),
          (LoggerError, OverlappingNames {PyStr ''tumor''})], Inl AssertionError)"
proof -
  let ?df = uncleaned_file
  let ?names = "{PyStr ''tumor'', PyStr ''stroma''}"
  let ?col = "TextColumn [Some ''tumor '', Some '' stroma'', Some ''other'']"
  let ?status = "[Some ''collected'', Some ''open'', Some ''open'']"
  let ?stripped = "[Some ''tumor'', Some ''stroma'', Some ''other'']"
  let ?md = "dict_set status_as_text ''Class name'' (TextColumn (map Some (stripped_names ?col)))"
  let ?text = "process_geojson_with_metadata literal_eval ?df (Some status_as_text)
                 ''Class name'' ''status''"
  let ?self = "process_geojson_with_metadata literal_eval ?df (Some status_as_text)
                 ''Class name'' ''Class name''"
  have names: "shape_names_set (rows cleaned_file) = Inr ?names"
    by code_simp
  have key: "get_column status_as_text ''Class name'' = Inr ?col"
    by code_simp
  have var: "get_column ?md ''status'' = Inr (TextColumn ?status)"
    by code_simp
  have var': "get_column ?md ''Class name'' = Inr (TextColumn ?stripped)"
    by code_simp
  have meta: "metadata_names_set ?col = {PyStr ''tumor'', PyStr ''stroma'', PyStr ''other''}"
    by code_simp
  have sub: "?names \<subseteq> metadata_names_set ?col"
    unfolding meta by simp
  have len: "length ?status = length (stripped_names ?col)"
      "length ?stripped = length (stripped_names ?col)"
    by (simp_all add: stripped_names_def)
  have cls: "map classification_name (rows cleaned_file) = [PyStr ''tumor'', PyStr ''stroma'']"
    by (simp add: cleaned_file_def cleaned_features_def with_classification_name_def)
  have "None \<notin> set ?status" "None \<notin> set ?stripped" by simp_all
  note h = QC_steps_uncleaned key names sub
  from process_geojson_with_metadata_names
    [of literal_eval ?df cleaned_file status_as_text "''Class name''" ?col ?names
        "''status''" ?status] h var len(1) \<open>None \<notin> set ?status\<close>
  have "\<exists>labelled. snd ?text = Inr labelled
           \<and> map shape_name labelled = map classification_name (rows cleaned_file)"
    by blast
  then have a: "map shape_name (projr (snd ?text)) = [PyStr ''tumor'', PyStr ''stroma'']"
    unfolding cls by auto
  from process_geojson_with_metadata_names
    [of literal_eval ?df cleaned_file status_as_text "''Class name''" ?col ?names
        "''Class name''" ?stripped] h var' len(2) \<open>None \<notin> set ?stripped\<close>
  have "\<exists>labelled. snd ?self = Inr labelled
           \<and> map shape_name labelled = map classification_name (rows cleaned_file)"
    by blast
  then have b: "map shape_name (projr (snd ?self)) = [PyStr ''tumor'', PyStr ''stroma'']"
    unfolding cls by auto
  have c: "map shape_classification (projr (snd ?text))
       = [PyDict [(''name'', PyStr ''collected''),
                  (''color'', PyList [PyInt 31, PyInt 119, PyInt 180])],
          PyDict [(''name'', PyStr ''open''),
                  (''color'', PyList [PyInt 255, PyInt 127, PyInt 14])]]"
    by code_simp
  have d: "process_geojson_with_metadata literal_eval ?df (Some tumor_only) ''Class name'' ''status''
      = ([(LoggerInfo, GeojsonLoaded 7), (LoggerInfo, PointsRemoved),
          (LoggerDebug, RunningCheckIds), (LoggerDebug, MetadataNamesStripped),
          (LoggerDebug, MetadataShape 1), (LoggerDebug, FirstShapeNames),
          (LoggerDebug, FirstMetadataNames),
          (LoggerError, NotFoundInMetadata {PyStr ''stroma''}),
          (LoggerError, OverlappingNames {PyStr ''tumor''})], Inl AssertionError)"
    by code_simp
  from a c b d show ?thesis by (intro conjI)
qed

text \<open>
  Claim C6 holds of the function up to its assertion and fails in the join after it. In
  the table \<open>status_as_integer\<close> the names \<^verbatim>\<open>tumor\<close> and \<^verbatim>\<open>stroma\<close> of the shapes are
  among the stripped names, so \<^verbatim>\<open>check_ids\<close> writes that all shape names are found and
  the assertion passes. The status is an integer: the keys of the colour dictionary are
  its categories converted to strings, the lookup is made with the integer itself, and
  the function ends with KeyError where the claim has the join succeed. With the same
  status written as text, in \<open>status_as_text\<close>, the function returns the labelled
  shapes.
\<close>

theorem process_geojson_with_metadata_integer_status:
  "QC_steps literal_eval uncleaned_file = Inr cleaned_file
   \<and> shape_names_set (rows cleaned_file) = Inr {PyStr ''tumor'', PyStr ''stroma''}
   \<and> get_column status_as_integer ''Class name''
       = Inr (TextColumn [Some ''tumor '', Some '' stroma'', Some ''other''])
   \<and> metadata_names_set (TextColumn [Some ''tumor '', Some '' stroma'', Some ''other''])
       = {PyStr ''tumor'', PyStr ''stroma'', PyStr ''other''}
   \<and> categories (IntColumn [1, 0, 0]) = [''0'', ''1'']
   \<and> process_geojson_with_metadata literal_eval uncleaned_file
        (Some status_as_integer) ''Class name'' ''status''
      = ([(LoggerInfo, GeojsonLoaded 7), (LoggerInfo, PointsRemoved),
          (LoggerDebug, RunningCheckIds), (LoggerDebug, MetadataNamesStripped),
          (LoggerDebug, MetadataShape 3), (LoggerDebug, FirstShapeNames),
          (LoggerDebug, FirstMetadataNames),
          (LoggerInfo, AllShapeNamesFound), (StWrite, AllShapeNamesFound)], Inl KeyError)
   \<and> process_geojson_with_metadata literal_eval uncleaned_file
        (Some status_as_text) ''Class name'' ''status''
      = ([(LoggerInfo, GeojsonLoaded 7), (LoggerInfo, PointsRemoved),
          (LoggerDebug, RunningCheckIds), (LoggerDebug, MetadataNamesStripped),
          (LoggerDebug, MetadataShape 3), (LoggerDebug, FirstShapeNames),
          (LoggerDebug, FirstMetadataNames),
          (LoggerInfo, AllShapeNamesFound), (StWrite, AllShapeNamesFound)],
         Inr [\<lparr>shape_geometry = geometry (square ''tumor''), shape_name = PyStr ''tumor'',
               shape_classification =
                 PyDict [(''name'', PyStr ''collected''),
                         (''color'', PyList [PyInt 31, PyInt 119, PyInt 180])]\<rparr>,
              \<lparr>shape_geometry = LineString [(0, 0), (5, 5)], shape_name = PyStr ''stroma'',
               shape_classification =
                 PyDict [(''name'', PyStr ''open''),
                         (''color'', PyList [PyInt 255, PyInt 127, PyInt 14])]\<rparr>])"
proof -
  have 1: "shape_names_set (rows cleaned_file) = Inr {PyStr ''tumor'', PyStr ''stroma''}"
    by code_simp
  have 2: "get_column status_as_integer ''Class name''
       = Inr (TextColumn [Some ''tumor '', Some '' stroma'', Some ''other''])"
    by code_simp
  have 3: "metadata_names_set (TextColumn [Some ''tumor '', Some '' stroma'', Some ''other''])
       = {PyStr ''tumor'', PyStr ''stroma'', PyStr ''other''}"
    by code_simp
  have 4: "categories (IntColumn [1, 0, 0]) = [''0'', ''1'']"
    by code_simp
  have 5: "process_geojson_with_metadata literal_eval uncleaned_file
        (Some status_as_integer) ''Class name'' ''status''
      = ([(LoggerInfo, GeojsonLoaded 7), (LoggerInfo, PointsRemoved),
          (LoggerDebug, RunningCheckIds), (LoggerDebug, MetadataNamesStripped),
          (LoggerDebug, MetadataShape 3), (LoggerDebug, FirstShapeNames),
          (LoggerDebug, FirstMetadataNames),
          (LoggerInfo, AllShapeNamesFound), (StWrite, AllShapeNamesFound)], Inl KeyError)"
    by code_simp
  have 6: "process_geojson_with_metadata literal_eval uncleaned_file
        (Some status_as_text) ''Class name'' ''status''
      = ([(LoggerInfo, GeojsonLoaded 7), (LoggerInfo, PointsRemoved),
          (LoggerDebug, RunningCheckIds), (LoggerDebug, MetadataNamesStripped),
          (LoggerDebug, MetadataShape 3), (LoggerDebug, FirstShapeNames),
          (LoggerDebug, FirstMetadataNames),
          (LoggerInfo, AllShapeNamesFound), (StWrite, AllShapeNamesFound)],
         Inr [\<lparr>shape_geometry = geometry (square ''tumor''), shape_name = PyStr ''tumor'',
               shape_classification =
                 PyDict [(''name'', PyStr ''collected''),
                         (''color'', PyList [PyInt 31, PyInt 119, PyInt 180])]\<rparr>,
              \<lparr>shape_geometry = LineString [(0, 0), (5, 5)], shape_name = PyStr ''stroma'',
               shape_classification =
                 PyDict [(''name'', PyStr ''open''),
                         (''color'', PyList [PyInt 255, PyInt 127, PyInt 14])]\<rparr>])"
    by code_simp
  from QC_steps_uncleaned 1 2 3 4 5 6 show ?thesis by (intro conjI)
qed

end
